theory Spec2Isabelle
  imports Complex_Main "HOL-Library.Word" "HOL-Library.Signed_Division"
begin

section \<open>The dynamic price engine of \<^verbatim>\<open>src/services/price-engine/main.cpp\<close>\<close>

text \<open>
  The engine is embedded by explicit state passing. The conventions of the embedding:
  \<^item> a C++ \<^verbatim>\<open>double\<close> is a \<^typ>\<open>real\<close>: arithmetic and comparisons are those of the
    real numbers, so rounding, infinities and NaN are not represented;
  \<^item> \<^verbatim>\<open>int\<close> is a 32-bit word and \<^verbatim>\<open>long long\<close> a 64-bit word, read with \<^const>\<open>sint\<close>;
  \<^item> a \<^verbatim>\<open>chrono::system_clock::time_point\<close> is an integer tick count, and every
    reading of \<^verbatim>\<open>system_clock::now()\<close> is supplied from outside;
  \<^item> the pseudo-random generator \<^verbatim>\<open>gen\<close> and the three distribution objects of
    \<^verbatim>\<open><random>\<close> are not part of the source file: their joint state is a value of an
    arbitrary type \<open>'g\<close>, and one call of each is a function of a \<open>random_source\<close>
    that returns the draw and the next state;
  \<^item> console output is left out.
\<close>

type_synonym time_point = int

subsection \<open>Data model\<close>

record Character =
  id' :: "32 word"
  name :: string
  crew :: string
  bounty :: "64 word"
  current_price :: real
  base_growth_rate :: real
  volatility :: real
  story_multiplier :: real
  sentiment_score :: real
  weekly_change :: real
  story_phase :: "32 word"
  is_trending :: bool
  last_update :: time_point

record MarketData =
  total_volume :: real
  market_cap :: real
  active_traders :: "32 word"
  volatility_index :: real
  current_year :: "32 word"
  days_elapsed :: "32 word"
  market_sentiment :: real
  major_event_active :: bool
  current_arc :: string
  market_last_update :: time_point

text \<open>
  One call of \<^verbatim>\<open>price_volatility(gen)\<close> (a \<^verbatim>\<open>normal_distribution<double>(0.0, 1.0)\<close>),
  of \<^verbatim>\<open>event_chance(gen)\<close> (a \<^verbatim>\<open>uniform_real_distribution<double>(0.0, 1.0)\<close>), of
  \<^verbatim>\<open>growth_factor(gen)\<close> (a \<^verbatim>\<open>uniform_real_distribution<double>(0.8, 1.5)\<close>) and of
  \<^verbatim>\<open>gen()\<close> itself.
\<close>

record 'g random_source =
  price_volatility :: "'g \<Rightarrow> real \<times> 'g"
  event_chance :: "'g \<Rightarrow> real \<times> 'g"
  growth_factor :: "'g \<Rightarrow> real \<times> 'g"
  gen_call :: "'g \<Rightarrow> nat \<times> 'g"

text \<open>
  The engine. \<open>gen\<close> is the state of the generator together with the distribution
  objects. A \<^verbatim>\<open>std::thread\<close> member is represented by whether it is joinable.
  \<open>detached_resets\<close> counts the threads that \<^verbatim>\<open>triggerMajorEvent\<close> has detached and
  that have not yet run their assignment.
\<close>

record 'g PriceEngine =
  characters :: "Character list"
  market_data :: MarketData
  running :: bool
  calculation_thread :: bool
  story_progression_thread :: bool
  gen :: 'g
  story_arc_multipliers :: "string \<rightharpoonup> real"
  story_arcs :: "string list"
  current_arc_index :: "32 word"
  detached_resets :: nat

subsection \<open>Constructors\<close>

definition Character_ctor ::
  "32 word \<Rightarrow> string \<Rightarrow> string \<Rightarrow> 64 word \<Rightarrow> real \<Rightarrow> time_point \<Rightarrow> Character" where
  "Character_ctor i n c b growth_rate now =
     \<lparr> id' = i, name = n, crew = c, bounty = b,
       current_price = 0.0,
       base_growth_rate = growth_rate,
       volatility = 0.3,
       story_multiplier = 1.0,
       sentiment_score = 0.5,
       weekly_change = 0.0,
       story_phase = 1,
       is_trending = False,
       last_update = now \<rparr>"

definition MarketData_ctor :: "time_point \<Rightarrow> MarketData" where
  "MarketData_ctor now =
     \<lparr> total_volume = 0.0, market_cap = 0.0,
       active_traders = 1000, volatility_index = 0.5,
       current_year = 1, days_elapsed = 0,
       market_sentiment = 0.5, major_event_active = False,
       current_arc = ''East Blue Saga'',
       market_last_update = now \<rparr>"

definition arc_names :: "string list" where
  "arc_names =
     [''East Blue Saga'', ''Alabasta Saga'', ''Sky Island Saga'',
      ''Water 7 Saga'', ''Thriller Bark Saga'', ''Summit War Saga'',
      ''Fish-Man Island Saga'', ''Dressrosa Saga'', ''Zou Saga'',
      ''Whole Cake Island Saga'', ''Wano Country Saga'', ''Final Saga'']"

definition arc_table :: "(string \<times> real) list" where
  "arc_table =
     [(''East Blue Saga'', 1.0),
      (''Alabasta Saga'', 1.5),
      (''Sky Island Saga'', 1.3),
      (''Water 7 Saga'', 2.0),
      (''Thriller Bark Saga'', 1.4),
      (''Summit War Saga'', 3.0),
      (''Fish-Man Island Saga'', 1.6),
      (''Dressrosa Saga'', 2.2),
      (''Zou Saga'', 1.8),
      (''Whole Cake Island Saga'', 2.5),
      (''Wano Country Saga'', 4.0),
      (''Final Saga'', 5.0)]"

text \<open>
  \<^verbatim>\<open>PriceEngine::PriceEngine()\<close>. The argument \<open>g0\<close> is the generator as
  \<^verbatim>\<open>gen(rd())\<close> leaves it: seeded from the hardware random device.
\<close>

definition PriceEngine_ctor :: "'g \<Rightarrow> time_point \<Rightarrow> 'g PriceEngine" where
  "PriceEngine_ctor g0 now =
     \<lparr> characters = [],
       market_data = (MarketData_ctor now)\<lparr> current_arc := arc_names ! 0 \<rparr>,
       running = False,
       calculation_thread = False,
       story_progression_thread = False,
       gen = g0,
       story_arc_multipliers = map_of arc_table,
       story_arcs = arc_names,
       current_arc_index = 0,
       detached_resets = 0 \<rparr>"

text \<open>\<^verbatim>\<open>loadCharacters\<close>: seventeen \<^verbatim>\<open>push_back\<close>s; \<open>clk k\<close> is the clock reading of the
  \<open>k\<close>-th constructor call.\<close>

definition roster :: "(nat \<Rightarrow> time_point) \<Rightarrow> Character list" where
  "roster clk =
     [Character_ctor 1 ''Monkey D. Luffy'' ''Straw Hat Pirates'' 3000000000 0.15 (clk 0),
      Character_ctor 2 ''Roronoa Zoro'' ''Straw Hat Pirates'' 1111000000 0.12 (clk 1),
      Character_ctor 3 ''Nami'' ''Straw Hat Pirates'' 366000000 0.08 (clk 2),
      Character_ctor 4 ''Usopp'' ''Straw Hat Pirates'' 500000000 0.07 (clk 3),
      Character_ctor 5 ''Sanji'' ''Straw Hat Pirates'' 1032000000 0.11 (clk 4),
      Character_ctor 6 ''Tony Tony Chopper'' ''Straw Hat Pirates'' 1000 0.06 (clk 5),
      Character_ctor 7 ''Nico Robin'' ''Straw Hat Pirates'' 930000000 0.10 (clk 6),
      Character_ctor 8 ''Franky'' ''Straw Hat Pirates'' 394000000 0.09 (clk 7),
      Character_ctor 9 ''Brook'' ''Straw Hat Pirates'' 383000000 0.08 (clk 8),
      Character_ctor 10 ''Jinbe'' ''Straw Hat Pirates'' 1100000000 0.13 (clk 9),
      Character_ctor 11 ''Kaido'' ''Beast Pirates'' 4611100000 0.20 (clk 10),
      Character_ctor 12 ''Big Mom'' ''Big Mom Pirates'' 4388000000 0.18 (clk 11),
      Character_ctor 13 ''Blackbeard'' ''Blackbeard Pirates'' 3996000000 0.25 (clk 12),
      Character_ctor 14 ''Doflamingo'' ''Donquixote Pirates'' 340000000 0.14 (clk 13),
      Character_ctor 15 ''Akainu'' ''Marines'' 0 0.16 (clk 14),
      Character_ctor 16 ''Kizaru'' ''Marines'' 0 0.15 (clk 15),
      Character_ctor 17 ''Aokiji'' ''Marines'' 0 0.14 (clk 16)]"

definition loadCharacters :: "(nat \<Rightarrow> time_point) \<Rightarrow> 'g PriceEngine \<Rightarrow> 'g PriceEngine" where
  "loadCharacters clk e = e\<lparr> characters := characters e @ roster clk \<rparr>"

subsection \<open>The arc multiplier\<close>

text \<open>\<^verbatim>\<open>std::map::operator[]\<close>: a missing key is inserted with the value \<^verbatim>\<open>0.0\<close>.\<close>

definition map_index :: "(string \<rightharpoonup> real) \<Rightarrow> string \<Rightarrow> real \<times> (string \<rightharpoonup> real)" where
  "map_index m k = (case m k of Some v \<Rightarrow> (v, m) | None \<Rightarrow> (0, m(k \<mapsto> 0)))"

definition getStoryMultiplier :: "'g PriceEngine \<Rightarrow> Character \<Rightarrow> real \<times> 'g PriceEngine" where
  "getStoryMultiplier e character =
     (let (base_multiplier, m) = map_index (story_arc_multipliers e) (current_arc (market_data e));
          e1 = e\<lparr> story_arc_multipliers := m \<rparr>
      in if current_arc (market_data e1) = ''Summit War Saga'' \<and> name character = ''Monkey D. Luffy''
         then (base_multiplier * 2.0, e1)
         else if current_arc (market_data e1) = ''Wano Country Saga'' \<and> name character = ''Monkey D. Luffy''
         then (base_multiplier * 3.0, e1)
         else if current_arc (market_data e1) = ''Wano Country Saga'' \<and> name character = ''Kaido''
         then (base_multiplier * 2.5, e1)
         else (base_multiplier, e1))"

subsection \<open>The price model\<close>

text \<open>
  \<^verbatim>\<open>calculateNewPrice\<close>. The normal draw is taken on every call, the uniform draw of the
  starting price only when the current price is zero. \<^verbatim>\<open>character.bounty + 1\<close> is a
  \<^verbatim>\<open>long long\<close> addition, converted to \<^verbatim>\<open>double\<close> by \<^verbatim>\<open>log10\<close>. At the largest
  \<^verbatim>\<open>long long\<close> the addition overflows and \<^verbatim>\<open>log10\<close> of the wrapped value is not a
  number, which \<^verbatim>\<open>std::max\<close> and \<^verbatim>\<open>std::min\<close> pass on; a real number cannot
  represent that result, so the statements about the returned value exclude this
  reputation.
\<close>

definition calculateNewPrice ::
  "'g random_source \<Rightarrow> 'g PriceEngine \<Rightarrow> Character \<Rightarrow> real \<times> 'g PriceEngine" where
  "calculateNewPrice src e character =
     (let price = current_price character;
          base_growth = (if price < 10.0 then base_growth_rate character * 2.0
                         else base_growth_rate character);
          (story_mult, e1) = getStoryMultiplier e character;
          time_factor = 1.0 + (base_growth * story_mult);
          (z, g1) = price_volatility src (gen e1);
          e2 = e1\<lparr> gen := g1 \<rparr>;
          volatility_swing = z * volatility character;
          volatility_factor = 1.0 + volatility_swing;
          bounty_factor = (if 0 <s bounty character
                           then 1.0 + (log 10 (real_of_int (sint (bounty character + 1))) * 0.02)
                           else 1.0);
          crew_factor = (if crew character = ''Straw Hat Pirates'' then 1.2
                         else if crew character = ''Beast Pirates'' \<or> crew character = ''Big Mom Pirates''
                         then 1.15 else 1.0);
          event_factor = (if major_event_active (market_data e2) then 1.5 else 1.0);
          (new_price, e3) =
            (if price = 0.0
             then (let (u, g2) = growth_factor src (gen e2) in (u * 0.5, e2\<lparr> gen := g2 \<rparr>))
             else (price * time_factor * volatility_factor * bounty_factor * crew_factor * event_factor,
                   e2));
          new_price = max new_price 0.01;
          new_price = min new_price 10000.0
      in (new_price, e3))"

subsection \<open>The update loop\<close>

text \<open>
  One pass of the body of the \<^verbatim>\<open>for (auto& character : characters)\<close> loop of
  \<^verbatim>\<open>calculatePrices\<close>, for the element at index \<open>i\<close>; \<open>clk i\<close> is the clock reading
  stamped on it.
\<close>

definition update_character ::
  "'g random_source \<Rightarrow> (nat \<Rightarrow> time_point) \<Rightarrow> nat \<Rightarrow> 'g PriceEngine \<Rightarrow> 'g PriceEngine" where
  "update_character src clk i e =
     (let character = characters e ! i;
          old_price = current_price character;
          (new_price, e1) = calculateNewPrice src e character;
          character = character\<lparr> current_price := new_price \<rparr>;
          character = character\<lparr> weekly_change :=
                        (if old_price > 0 then ((new_price - old_price) / old_price) * 100.0
                         else (if new_price > 0 then 100.0 else 0.0)) \<rparr>;
          character = character\<lparr> last_update := clk i \<rparr>
      in e1\<lparr> characters := (characters e1)[i := character] \<rparr>)"

text \<open>
  \<^verbatim>\<open>triggerMajorEvent\<close>: the flag is set, \<^verbatim>\<open>gen()\<close> is called once (to choose the
  message that is printed), and a thread is detached that will clear the flag.
\<close>

definition triggerMajorEvent :: "'g random_source \<Rightarrow> 'g PriceEngine \<Rightarrow> 'g PriceEngine" where
  "triggerMajorEvent src e =
     (let e1 = e\<lparr> market_data := (market_data e)\<lparr> major_event_active := True \<rparr> \<rparr>;
          (r, g1) = gen_call src (gen e1);
          e2 = e1\<lparr> gen := g1 \<rparr>
      in e2\<lparr> detached_resets := detached_resets e2 + 1 \<rparr>)"

text \<open>The assignment that a detached thread of \<^verbatim>\<open>triggerMajorEvent\<close> runs after its sleep.\<close>

definition event_reset :: "'g PriceEngine \<Rightarrow> 'g PriceEngine" where
  "event_reset e =
     e\<lparr> market_data := (market_data e)\<lparr> major_event_active := False \<rparr>,
        detached_resets := detached_resets e - 1 \<rparr>"

text \<open>
  The body of the \<^verbatim>\<open>while (running)\<close> loop of \<^verbatim>\<open>calculatePrices\<close>, executed under the
  lock. The remainder of C++ truncates towards zero (\<^const>\<open>signed_modulo\<close>).
\<close>

definition calculatePrices_body ::
  "'g random_source \<Rightarrow> (nat \<Rightarrow> time_point) \<Rightarrow> 'g PriceEngine \<Rightarrow> 'g PriceEngine" where
  "calculatePrices_body src clk e =
     (let md = (market_data e)\<lparr> days_elapsed := days_elapsed (market_data e) + 1 \<rparr>;
          md = (if sint (days_elapsed md) smod 365 = 0
                then md\<lparr> current_year := current_year md + 1 \<rparr> else md);
          e1 = e\<lparr> market_data := md \<rparr>;
          e2 = fold (update_character src clk) [0..<length (characters e1)] e1;
          (u, g1) = event_chance src (gen e2);
          e3 = e2\<lparr> gen := g1 \<rparr>;
          e4 = (if u < 0.1 then triggerMajorEvent src e3 else e3)
      in e4\<lparr> market_data :=
              (market_data e4)\<lparr> market_last_update := clk (length (characters e4)) \<rparr> \<rparr>)"

subsection \<open>The arc sequencer\<close>

text \<open>
  The body of the \<^verbatim>\<open>while (running)\<close> loop of \<^verbatim>\<open>progressStory\<close> after its sleep,
  executed under the lock. The comparison with \<^verbatim>\<open>story_arcs.size() - 1\<close> is made on
  64-bit unsigned values, and the printed \<^verbatim>\<open>story_arc_multipliers[...]\<close> is an
  \<^verbatim>\<open>operator[]\<close> access of the map. An index outside the vector is undefined in C++
  and unspecified here.
\<close>

definition progressStory_body :: "'g PriceEngine \<Rightarrow> 'g PriceEngine" where
  "progressStory_body e =
     (if 0 <s days_elapsed (market_data e) \<and> sint (days_elapsed (market_data e)) smod 100 = 0
      then
        (if (scast (current_arc_index e) :: 64 word) < word_of_nat (length (story_arcs e)) - 1
         then
           (let e1 = e\<lparr> current_arc_index := current_arc_index e + 1 \<rparr>;
                e2 = e1\<lparr> market_data := (market_data e1)
                       \<lparr> current_arc :=
                           story_arcs e1 ! unat (scast (current_arc_index e1) :: 64 word) \<rparr> \<rparr>;
                e3 = e2\<lparr> story_arc_multipliers :=
                          snd (map_index (story_arc_multipliers e2) (current_arc (market_data e2))) \<rparr>
            in e3\<lparr> market_data := (market_data e3)\<lparr> major_event_active := True \<rparr> \<rparr>)
         else e)
      else e)"

subsection \<open>Starting and stopping\<close>

definition startPriceCalculation :: "'g PriceEngine \<Rightarrow> 'g PriceEngine" where
  "startPriceCalculation e =
     (if running e then e
      else e\<lparr> running := True, calculation_thread := True, story_progression_thread := True \<rparr>)"

text \<open>
  \<^verbatim>\<open>stopPriceCalculation\<close>. Joining the calculation thread waits until its loop test
  fails. The story thread tests \<^verbatim>\<open>running\<close> before it sleeps and runs its body after
  the sleep, so a thread that is asleep when \<^verbatim>\<open>running\<close> is cleared runs the body once
  more before the join returns. The detached threads are not joined.
\<close>

definition stopPriceCalculation :: "'g PriceEngine \<Rightarrow> 'g PriceEngine" where
  "stopPriceCalculation e =
     (let e1 = e\<lparr> running := False \<rparr>;
          e2 = (if calculation_thread e1 then e1\<lparr> calculation_thread := False \<rparr> else e1)
      in if story_progression_thread e2
         then (progressStory_body e2)\<lparr> story_progression_thread := False \<rparr>
         else e2)"

subsection \<open>Runs\<close>

text \<open>
  A run of the engine is a sequence of the steps that its threads take: an iteration of
  the update loop, a wake-up of the arc sequencer, the assignment of a detached
  thread, and the call of \<^verbatim>\<open>stopPriceCalculation\<close>. The two loop bodies hold the mutex,
  so they do not overlap; the assignment of a detached thread is taken between them.
\<close>

datatype event = Tick "nat \<Rightarrow> time_point" | ArcPoll | EventReset | Shutdown

fun step :: "'g random_source \<Rightarrow> event \<Rightarrow> 'g PriceEngine \<Rightarrow> 'g PriceEngine" where
  "step src (Tick clk) e =
     (if running e \<and> calculation_thread e then calculatePrices_body src clk e else e)"
| "step src ArcPoll e =
     (if running e \<and> story_progression_thread e then progressStory_body e else e)"
| "step src EventReset e = (if 0 < detached_resets e then event_reset e else e)"
| "step src Shutdown e = stopPriceCalculation e"

definition run :: "'g random_source \<Rightarrow> event list \<Rightarrow> 'g PriceEngine \<Rightarrow> 'g PriceEngine" where
  "run src evs e = fold (step src) evs e"

text \<open>The state in which \<^verbatim>\<open>main\<close> leaves the engine after \<^verbatim>\<open>startPriceCalculation\<close>.\<close>

definition started_engine :: "'g \<Rightarrow> time_point \<Rightarrow> (nat \<Rightarrow> time_point) \<Rightarrow> 'g PriceEngine" where
  "started_engine g0 now clk = startPriceCalculation (loadCharacters clk (PriceEngine_ctor g0 now))"

subsection \<open>The override table and a concrete random source\<close>

text \<open>
  The three inline conditionals of \<^verbatim>\<open>getStoryMultiplier\<close>, written as the table keyed
  by (entity name, arc name) that the specification describes.
\<close>

definition arc_overrides :: "((string \<times> string) \<times> real) list" where
  "arc_overrides =
     [((''Monkey D. Luffy'', ''Summit War Saga''), 2.0),
      ((''Monkey D. Luffy'', ''Wano Country Saga''), 3.0),
      ((''Kaido'', ''Wano Country Saga''), 2.5)]"

text \<open>
  A random source whose distributions return the same draws on every call: \<open>z\<close> for
  the normal draw, \<open>u\<close> for the event draw, \<open>w\<close> for the starting-price draw and
  \<open>k\<close> for \<^verbatim>\<open>gen()\<close>. It is the concrete input at which the theorems below are
  instantiated.
\<close>

definition fixed_source :: "real \<Rightarrow> real \<Rightarrow> real \<Rightarrow> nat \<Rightarrow> 'g random_source" where
  "fixed_source z u w k =
     \<lparr> price_volatility = (\<lambda>g. (z, g)),
       event_chance = (\<lambda>g. (u, g)),
       growth_factor = (\<lambda>g. (w, g)),
       gen_call = (\<lambda>g. (k, g)) \<rparr>"

subsection \<open>Notions used in the proofs\<close>

text \<open>
  What every state of a run from the started engine satisfies: the arc list and the
  multiplier table are those of the constructor, the index is at most 11 and the current
  arc is one of the list.
\<close>

definition engine_inv :: "'g PriceEngine \<Rightarrow> bool" where
  "engine_inv e \<longleftrightarrow>
     story_arcs e = arc_names \<and> story_arc_multipliers e = map_of arc_table \<and>
     current_arc_index e \<le> 11 \<and> current_arc (market_data e) \<in> set arc_names"

text \<open>
  For the concrete runs below: the engine is running, in the first arc, and the entity at
  position 14 of its registry is the one the roster puts there (reputation 0, no group
  bonus), at price \<open>p\<close>. Under a source whose normal draw is 0 the price model takes the
  price \<open>p\<close> of this entity to \<open>next14 f p\<close>, where \<open>f\<close> is the active-event flag.
\<close>

definition entity14_at :: "unit PriceEngine \<Rightarrow> real \<Rightarrow> bool" where
  "entity14_at e p \<longleftrightarrow>
     running e \<and> calculation_thread e \<and> engine_inv e \<and>
     current_arc (market_data e) = ''East Blue Saga'' \<and>
     14 < length (characters e) \<and>
     bounty (characters e ! 14) = 0 \<and> crew (characters e ! 14) = ''Marines'' \<and>
     name (characters e ! 14) = ''Akainu'' \<and>
     base_growth_rate (characters e ! 14) = 0.16 \<and> volatility (characters e ! 14) = 0.3 \<and>
     current_price (characters e ! 14) = p"

definition next14 :: "bool \<Rightarrow> real \<Rightarrow> real" where
  "next14 f p =
     min (max (p * (1 + (if p < 10 then 0.32 else 0.16)) * (if f then 1.5 else 1)) 0.01) 10000"

section \<open>Properties\<close>

subsection \<open>The price model\<close>

lemma getStoryMultiplier_snd:
  "snd (getStoryMultiplier e c) =
     e\<lparr> story_arc_multipliers :=
          snd (map_index (story_arc_multipliers e) (current_arc (market_data e))) \<rparr>"
  by (simp add: getStoryMultiplier_def Let_def split: prod.splits)

lemma getStoryMultiplier_gen: "gen (snd (getStoryMultiplier e c)) = gen e"
  and getStoryMultiplier_md: "market_data (snd (getStoryMultiplier e c)) = market_data e"
  by (simp_all add: getStoryMultiplier_snd)

lemma getStoryMultiplier_upd_gen:
  "gen (snd (getStoryMultiplier e c)\<lparr> gen := g \<rparr>) = g"
  "market_data (snd (getStoryMultiplier e c)\<lparr> gen := g \<rparr>) = market_data e"
  by (simp_all add: getStoryMultiplier_snd)

lemma market_data_upd_multipliers:
  "market_data (e\<lparr> story_arc_multipliers := m \<rparr>) = market_data e"
  by simp

lemma map_index_fst: "fst (map_index m k) = (case m k of Some v \<Rightarrow> v | None \<Rightarrow> 0)"
  by (simp add: map_index_def split: option.splits)

lemma map_index_idem:
  "fst (map_index (snd (map_index m k)) k) = fst (map_index m k)"
  by (simp add: map_index_def split: option.splits)

lemma map_index_present:
  "k \<in> dom m \<Longrightarrow> snd (map_index m k) = m"
  by (auto simp: map_index_def)

lemma getStoryMultiplier_fst:
  "fst (getStoryMultiplier e c) =
     fst (map_index (story_arc_multipliers e) (current_arc (market_data e))) *
     (if current_arc (market_data e) = ''Summit War Saga'' \<and> name c = ''Monkey D. Luffy'' then 2.0
      else if current_arc (market_data e) = ''Wano Country Saga'' \<and> name c = ''Monkey D. Luffy'' then 3.0
      else if current_arc (market_data e) = ''Wano Country Saga'' \<and> name c = ''Kaido'' then 2.5
      else 1)"
  unfolding getStoryMultiplier_def Let_def case_prod_beta
  by (simp only: market_data_upd_multipliers if_distrib [of fst] fst_conv mult_1_right if_distrib [of "\<lambda>x. _ * x"])




lemma calculateNewPrice_snd:
  "snd (calculateNewPrice src e c) =
     (let e1 = snd (getStoryMultiplier e c);
          g1 = snd (price_volatility src (gen e1));
          e2 = e1\<lparr> gen := g1 \<rparr>
      in if current_price c = 0 then e2\<lparr> gen := snd (growth_factor src (gen e2)) \<rparr> else e2)"
  unfolding calculateNewPrice_def Let_def case_prod_beta snd_conv
  by (simp only: if_distrib [of snd] snd_conv) simp

lemma calculateNewPrice_frame:
  "characters (snd (calculateNewPrice src e c)) = characters e"
  "market_data (snd (calculateNewPrice src e c)) = market_data e"
  "running (snd (calculateNewPrice src e c)) = running e"
  "calculation_thread (snd (calculateNewPrice src e c)) = calculation_thread e"
  "story_progression_thread (snd (calculateNewPrice src e c)) = story_progression_thread e"
  "story_arcs (snd (calculateNewPrice src e c)) = story_arcs e"
  "current_arc_index (snd (calculateNewPrice src e c)) = current_arc_index e"
  "detached_resets (snd (calculateNewPrice src e c)) = detached_resets e"
  by (simp_all add: calculateNewPrice_snd getStoryMultiplier_snd Let_def)

lemma calculateNewPrice_fst:
  "fst (calculateNewPrice src e c) =
     min (max
       (if current_price c = 0.0
        then fst (growth_factor src (snd (price_volatility src (gen e)))) * 0.5
        else current_price c *
             (1.0 + ((if current_price c < 10.0 then base_growth_rate c * 2.0
                      else base_growth_rate c) * fst (getStoryMultiplier e c))) *
             (1.0 + fst (price_volatility src (gen e)) * volatility c) *
             (if 0 <s bounty c
              then 1.0 + (log 10 (real_of_int (sint (bounty c + 1))) * 0.02) else 1.0) *
             (if crew c = ''Straw Hat Pirates'' then 1.2
              else if crew c = ''Beast Pirates'' \<or> crew c = ''Big Mom Pirates''
              then 1.15 else 1.0) *
             (if major_event_active (market_data e) then 1.5 else 1.0))
       0.01) 10000.0"
  unfolding calculateNewPrice_def Let_def case_prod_beta
  by (simp only: fst_conv snd_conv if_distrib [of fst] getStoryMultiplier_gen
      getStoryMultiplier_upd_gen)

lemma calculateNewPrice_zero:
  assumes "current_price c = 0"
  shows "fst (calculateNewPrice src e c) =
         min (max (fst (growth_factor src (snd (price_volatility src (gen e)))) * 0.5) 0.01) 10000"
  unfolding calculateNewPrice_fst using assms by (simp split del: if_split cong: if_cong)

lemma calculateNewPrice_cong:
  assumes a: "current_arc (market_data e1) = current_arc (market_data e2)"
    and f: "major_event_active (market_data e1) = major_event_active (market_data e2)"
    and m: "fst (map_index (story_arc_multipliers e1) (current_arc (market_data e2))) =
            fst (map_index (story_arc_multipliers e2) (current_arc (market_data e2)))"
    and g: "gen e1 = gen e2"
  shows "fst (calculateNewPrice src e1 c) = fst (calculateNewPrice src e2 c)"
    and "gen (snd (calculateNewPrice src e1 c)) = gen (snd (calculateNewPrice src e2 c))"
proof -
  show "fst (calculateNewPrice src e1 c) = fst (calculateNewPrice src e2 c)"
    by (simp only: calculateNewPrice_fst getStoryMultiplier_fst a f g m)
  show "gen (snd (calculateNewPrice src e1 c)) = gen (snd (calculateNewPrice src e2 c))"
    by (simp add: calculateNewPrice_snd getStoryMultiplier_snd Let_def g)
qed

subsection \<open>The update loop\<close>

lemma update_character_eq:
  "update_character src clk i e =
     (snd (calculateNewPrice src e (characters e ! i)))
       \<lparr> characters := (characters e)[i := (characters e ! i)
            \<lparr> current_price := fst (calculateNewPrice src e (characters e ! i)),
              weekly_change :=
                (if current_price (characters e ! i) > 0
                 then ((fst (calculateNewPrice src e (characters e ! i)) -
                        current_price (characters e ! i)) / current_price (characters e ! i)) * 100.0
                 else (if fst (calculateNewPrice src e (characters e ! i)) > 0 then 100.0 else 0.0)),
              last_update := clk i \<rparr>] \<rparr>"
  unfolding update_character_def Let_def case_prod_beta
  by (simp only: calculateNewPrice_frame Character.simps)

lemma update_character_frame:
  "market_data (update_character src clk i e) = market_data e"
  "running (update_character src clk i e) = running e"
  "calculation_thread (update_character src clk i e) = calculation_thread e"
  "story_progression_thread (update_character src clk i e) = story_progression_thread e"
  "story_arcs (update_character src clk i e) = story_arcs e"
  "current_arc_index (update_character src clk i e) = current_arc_index e"
  "detached_resets (update_character src clk i e) = detached_resets e"
  "length (characters (update_character src clk i e)) = length (characters e)"
  by (simp_all add: update_character_eq calculateNewPrice_frame)

lemma update_character_multipliers:
  "story_arc_multipliers (update_character src clk i e) =
     snd (map_index (story_arc_multipliers e) (current_arc (market_data e)))"
  by (simp add: update_character_eq calculateNewPrice_snd getStoryMultiplier_snd Let_def)

lemma update_loop_frame:
  "market_data (fold (update_character src clk) xs e) = market_data e"
  "running (fold (update_character src clk) xs e) = running e"
  "calculation_thread (fold (update_character src clk) xs e) = calculation_thread e"
  "story_progression_thread (fold (update_character src clk) xs e) = story_progression_thread e"
  "story_arcs (fold (update_character src clk) xs e) = story_arcs e"
  "current_arc_index (fold (update_character src clk) xs e) = current_arc_index e"
  "detached_resets (fold (update_character src clk) xs e) = detached_resets e"
  "length (characters (fold (update_character src clk) xs e)) = length (characters e)"
  by (induction xs arbitrary: e; simp add: update_character_frame)+

lemma update_loop_inv:
  assumes "P e" and "\<And>e' i. P e' \<Longrightarrow> P (update_character src clk i e')"
  shows "P (fold (update_character src clk) xs e)"
  using assms by (induction xs arbitrary: e) simp_all

lemma update_loop_multipliers:
  assumes "current_arc (market_data e) \<in> dom (story_arc_multipliers e)"
  shows "story_arc_multipliers (fold (update_character src clk) xs e) = story_arc_multipliers e"
proof -
  have "story_arc_multipliers (fold (update_character src clk) xs e) = story_arc_multipliers e \<and>
        market_data (fold (update_character src clk) xs e) = market_data e"
    by (rule update_loop_inv
          [where P = "\<lambda>e'. story_arc_multipliers e' = story_arc_multipliers e \<and>
              market_data e' = market_data e"])
       (use assms in \<open>simp_all add: update_character_frame update_character_multipliers
          map_index_present\<close>)
  then show ?thesis by simp
qed

text \<open>
  What the loop makes of each character, given a property \<open>P\<close> of the engine that every
  pass keeps and a relation \<open>R\<close> that every pass under \<open>P\<close> establishes.
\<close>

lemma update_loop_pointwise:
  assumes P0: "P e"
    and Pstep: "\<And>e' i. P e' \<Longrightarrow> P (update_character src clk i e')"
    and R: "\<And>e' c t. P e' \<Longrightarrow> R c (c\<lparr> current_price := fst (calculateNewPrice src e' c),
              weekly_change :=
                (if current_price c > 0
                 then ((fst (calculateNewPrice src e' c) - current_price c) / current_price c) * 100.0
                 else (if fst (calculateNewPrice src e' c) > 0 then 100.0 else 0.0)),
              last_update := t \<rparr>)"
  shows "n \<le> length (characters e) \<Longrightarrow>
         P (fold (update_character src clk) [0..<n] e) \<and>
         (\<forall>i<n. R (characters e ! i) (characters (fold (update_character src clk) [0..<n] e) ! i)) \<and>
         (\<forall>i\<ge>n. characters (fold (update_character src clk) [0..<n] e) ! i = characters e ! i)"
proof (induction n)
  case 0
  then show ?case using P0 by simp
next
  case (Suc n)
  let ?e = "fold (update_character src clk) [0..<n] e"
  from Suc have IH0: "P ?e"
    and IH1: "\<forall>i<n. R (characters e ! i) (characters ?e ! i)"
    and IH2: "\<forall>i\<ge>n. characters ?e ! i = characters e ! i" by simp_all
  have len: "length (characters ?e) = length (characters e)"
    by (rule update_loop_frame)
  have n: "n < length (characters ?e)" using Suc.prems len by simp
  have step: "fold (update_character src clk) [0..<Suc n] e = update_character src clk n ?e"
    by simp
  have chars: "characters (update_character src clk n ?e) =
      (characters ?e)[n := (characters ?e ! n)
            \<lparr> current_price := fst (calculateNewPrice src ?e (characters ?e ! n)),
              weekly_change :=
                (if current_price (characters ?e ! n) > 0
                 then ((fst (calculateNewPrice src ?e (characters ?e ! n)) -
                        current_price (characters ?e ! n)) / current_price (characters ?e ! n)) * 100.0
                 else (if fst (calculateNewPrice src ?e (characters ?e ! n)) > 0 then 100.0 else 0.0)),
              last_update := clk n \<rparr>]"
    by (subst update_character_eq) simp
  have at_n: "characters ?e ! n = characters e ! n" using IH2 by simp
  show ?case
  proof (intro conjI allI impI)
    show "P (fold (update_character src clk) [0..<Suc n] e)"
      unfolding step using IH0 by (rule Pstep)
  next
    fix i assume "i < Suc n"
    show "R (characters e ! i) (characters (fold (update_character src clk) [0..<Suc n] e) ! i)"
    proof (cases "i = n")
      case True
      have "R (characters ?e ! n) (characters (update_character src clk n ?e) ! n)"
        unfolding chars using n by (simp only: nth_list_update_eq R [OF IH0])
      then show ?thesis unfolding step using True at_n by simp
    next
      case False
      with \<open>i < Suc n\<close> have "i < n" by simp
      then show ?thesis unfolding step chars using IH1 False by simp
    qed
  next
    fix i assume "Suc n \<le> i"
    then show "characters (fold (update_character src clk) [0..<Suc n] e) ! i = characters e ! i"
      unfolding step chars using IH2 by simp
  qed
qed

lemma triggerMajorEvent_frame:
  "characters (triggerMajorEvent src e) = characters e"
  "running (triggerMajorEvent src e) = running e"
  "calculation_thread (triggerMajorEvent src e) = calculation_thread e"
  "story_progression_thread (triggerMajorEvent src e) = story_progression_thread e"
  "story_arcs (triggerMajorEvent src e) = story_arcs e"
  "current_arc_index (triggerMajorEvent src e) = current_arc_index e"
  "story_arc_multipliers (triggerMajorEvent src e) = story_arc_multipliers e"
  "detached_resets (triggerMajorEvent src e) = detached_resets e + 1"
  "market_data (triggerMajorEvent src e) = (market_data e)\<lparr> major_event_active := True \<rparr>"
  "gen (triggerMajorEvent src e) = snd (gen_call src (gen e))"
  by (simp_all add: triggerMajorEvent_def Let_def case_prod_beta)

lemma calculatePrices_body_characters:
  "\<exists>e1. characters e1 = characters e \<and> gen e1 = gen e \<and>
        story_arc_multipliers e1 = story_arc_multipliers e \<and>
        current_arc (market_data e1) = current_arc (market_data e) \<and>
        major_event_active (market_data e1) = major_event_active (market_data e) \<and>
        characters (calculatePrices_body src clk e) =
        characters (fold (update_character src clk) [0..<length (characters e)] e1)"
proof -
  let ?md = "(market_data e)\<lparr> days_elapsed := days_elapsed (market_data e) + 1 \<rparr>"
  let ?e1 = "e\<lparr> market_data := (if sint (days_elapsed ?md) smod 365 = 0
                then ?md\<lparr> current_year := current_year ?md + 1 \<rparr> else ?md) \<rparr>"
  have "characters (calculatePrices_body src clk e) =
        characters (fold (update_character src clk) [0..<length (characters e)] ?e1)"
    unfolding calculatePrices_body_def Let_def case_prod_beta
    by (simp add: triggerMajorEvent_frame)
  moreover have "characters ?e1 = characters e" "gen ?e1 = gen e"
    "story_arc_multipliers ?e1 = story_arc_multipliers e"
    "current_arc (market_data ?e1) = current_arc (market_data e)"
    "major_event_active (market_data ?e1) = major_event_active (market_data e)"
    by simp_all
  ultimately show ?thesis by blast
qed

lemma calculatePrices_body_frame:
  "running (calculatePrices_body src clk e) = running e"
  "calculation_thread (calculatePrices_body src clk e) = calculation_thread e"
  "story_progression_thread (calculatePrices_body src clk e) = story_progression_thread e"
  "story_arcs (calculatePrices_body src clk e) = story_arcs e"
  "current_arc_index (calculatePrices_body src clk e) = current_arc_index e"
  "length (characters (calculatePrices_body src clk e)) = length (characters e)"
  unfolding calculatePrices_body_def Let_def case_prod_beta
  by (simp_all add: triggerMajorEvent_frame update_loop_frame)

lemma calculatePrices_body_multipliers:
  assumes "current_arc (market_data e) \<in> dom (story_arc_multipliers e)"
  shows "story_arc_multipliers (calculatePrices_body src clk e) = story_arc_multipliers e"
  unfolding calculatePrices_body_def Let_def case_prod_beta
  using assms by (simp add: triggerMajorEvent_frame update_loop_multipliers)

lemma calculatePrices_body_md:
  "current_arc (market_data (calculatePrices_body src clk e)) = current_arc (market_data e)"
  "days_elapsed (market_data (calculatePrices_body src clk e)) = days_elapsed (market_data e) + 1"
  unfolding calculatePrices_body_def Let_def case_prod_beta
  by (simp_all add: triggerMajorEvent_frame update_loop_frame)

lemma calculatePrices_body_fixed:
  "major_event_active (market_data (calculatePrices_body (fixed_source z u w k) clk e)) =
     (u < 0.1 \<or> major_event_active (market_data e))"
  "detached_resets (calculatePrices_body (fixed_source z u w k) clk e) =
     detached_resets e + (if u < 0.1 then 1 else 0)"
  unfolding calculatePrices_body_def Let_def case_prod_beta
  by (simp_all add: triggerMajorEvent_frame update_loop_frame fixed_source_def)

lemma tick_pointwise:
  assumes P0: "\<And>e1. characters e1 = characters e \<Longrightarrow> gen e1 = gen e \<Longrightarrow>
        story_arc_multipliers e1 = story_arc_multipliers e \<Longrightarrow>
        current_arc (market_data e1) = current_arc (market_data e) \<Longrightarrow>
        major_event_active (market_data e1) = major_event_active (market_data e) \<Longrightarrow> P e1"
    and Pstep: "\<And>e' i. P e' \<Longrightarrow> P (update_character src clk i e')"
    and R: "\<And>e' c t. P e' \<Longrightarrow> R c (c\<lparr> current_price := fst (calculateNewPrice src e' c),
              weekly_change :=
                (if current_price c > 0
                 then ((fst (calculateNewPrice src e' c) - current_price c) / current_price c) * 100.0
                 else (if fst (calculateNewPrice src e' c) > 0 then 100.0 else 0.0)),
              last_update := t \<rparr>)"
    and i: "i < length (characters e)"
  shows "R (characters e ! i) (characters (calculatePrices_body src clk e) ! i)"
proof -
  obtain e1 where e1: "characters e1 = characters e" and "gen e1 = gen e"
    "story_arc_multipliers e1 = story_arc_multipliers e"
    "current_arc (market_data e1) = current_arc (market_data e)"
    "major_event_active (market_data e1) = major_event_active (market_data e)"
    and eq: "characters (calculatePrices_body src clk e) =
        characters (fold (update_character src clk) [0..<length (characters e)] e1)"
    using calculatePrices_body_characters by blast
  then have "P e1" using P0 by blast
  then have "\<forall>i<length (characters e1).
          R (characters e1 ! i)
            (characters (fold (update_character src clk) [0..<length (characters e1)] e1) ! i)"
    using update_loop_pointwise [where P = P and R = R and e = e1 and n = "length (characters e1)",
        OF _ Pstep R]
    by simp
  then show ?thesis using i e1 eq by simp
qed

lemma tick_pointwise_any:
  assumes R: "\<And>e' c t. R c (c\<lparr> current_price := fst (calculateNewPrice src e' c),
              weekly_change :=
                (if current_price c > 0
                 then ((fst (calculateNewPrice src e' c) - current_price c) / current_price c) * 100.0
                 else (if fst (calculateNewPrice src e' c) > 0 then 100.0 else 0.0)),
              last_update := t \<rparr>)"
    and i: "i < length (characters e)"
  shows "R (characters e ! i) (characters (calculatePrices_body src clk e) ! i)"
proof (rule tick_pointwise [where P = "\<lambda>_. True" and R = R and src = src])
  show "i < length (characters e)" by (rule i)
qed (simp_all add: R)


lemma tick_field_frame:
  fixes f :: "Character \<Rightarrow> 'a"
  assumes f: "\<And>c p w t. f (c\<lparr> current_price := p, weekly_change := w, last_update := t \<rparr>) = f c"
  shows "map f (characters (calculatePrices_body src clk e)) = map f (characters e)"
proof (rule nth_equalityI)
  let ?e' = "calculatePrices_body src clk e"
  have len: "length (characters ?e') = length (characters e)"
    by (rule calculatePrices_body_frame)
  show "length (map f (characters ?e')) = length (map f (characters e))" using len by simp
  fix i assume "i < length (map f (characters ?e'))"
  then have i: "i < length (characters e)" using len by simp
  have "f (characters ?e' ! i) = f (characters e ! i)"
    by (rule tick_pointwise_any [where R = "\<lambda>c c'. f c' = f c", OF _ i]) (rule f)
  then show "map f (characters ?e') ! i = map f (characters e) ! i" using i len by simp
qed

lemma tick_field_nth:
  assumes "\<And>c p w t. f (c\<lparr> current_price := p, weekly_change := w, last_update := t \<rparr>) = f c"
    and "i < length (characters e)"
  shows "f (characters (calculatePrices_body src clk e) ! i) = f (characters e ! i)"
  by (rule tick_pointwise_any [where R = "\<lambda>c c'. f c' = f c", OF _ assms(2)]) (rule assms(1))

lemma tick_price_unit:
  fixes e :: "unit PriceEngine"
  assumes i: "i < length (characters e)"
  shows "current_price (characters (calculatePrices_body src clk e) ! i) =
         fst (calculateNewPrice src e (characters e ! i))"
proof (rule tick_pointwise
    [where P = "\<lambda>e'. current_arc (market_data e') = current_arc (market_data e) \<and>
        major_event_active (market_data e') = major_event_active (market_data e) \<and>
        fst (map_index (story_arc_multipliers e') (current_arc (market_data e))) =
        fst (map_index (story_arc_multipliers e) (current_arc (market_data e)))"
      and R = "\<lambda>c c'. current_price c' = fst (calculateNewPrice src e c)" and src = src])
  show "i < length (characters e)" by (rule i)
next
  fix e' :: "unit PriceEngine" and c t
  assume "current_arc (market_data e') = current_arc (market_data e) \<and>
        major_event_active (market_data e') = major_event_active (market_data e) \<and>
        fst (map_index (story_arc_multipliers e') (current_arc (market_data e))) =
        fst (map_index (story_arc_multipliers e) (current_arc (market_data e)))"
  then have "fst (calculateNewPrice src e' c) = fst (calculateNewPrice src e c)"
    by (intro calculateNewPrice_cong) simp_all
  then show "current_price (c\<lparr> current_price := fst (calculateNewPrice src e' c),
              weekly_change :=
                (if current_price c > 0
                 then ((fst (calculateNewPrice src e' c) - current_price c) / current_price c) * 100.0
                 else (if fst (calculateNewPrice src e' c) > 0 then 100.0 else 0.0)),
              last_update := t \<rparr>) = fst (calculateNewPrice src e c)"
    by simp
next
  fix e' :: "unit PriceEngine" and j
  assume "current_arc (market_data e') = current_arc (market_data e) \<and>
        major_event_active (market_data e') = major_event_active (market_data e) \<and>
        fst (map_index (story_arc_multipliers e') (current_arc (market_data e))) =
        fst (map_index (story_arc_multipliers e) (current_arc (market_data e)))"
  then show "current_arc (market_data (update_character src clk j e')) = current_arc (market_data e) \<and>
        major_event_active (market_data (update_character src clk j e')) =
          major_event_active (market_data e) \<and>
        fst (map_index (story_arc_multipliers (update_character src clk j e'))
          (current_arc (market_data e))) =
        fst (map_index (story_arc_multipliers e) (current_arc (market_data e)))"
    by (simp add: update_character_frame update_character_multipliers map_index_idem)
qed simp

subsection \<open>The arc sequencer, shutdown and the invariant of a run\<close>

lemma arc_table_dom: "dom (map_of arc_table) = set arc_names"
proof -
  have "map fst arc_table = arc_names" by (simp add: arc_table_def arc_names_def)
  then show ?thesis by (metis dom_map_of_conv_image_fst set_map)
qed

lemma length_arc_names: "length arc_names = 12"
  by (simp add: arc_names_def)

lemma index_cases:
  fixes x :: "32 word"
  assumes "x \<le> 11"
  shows "x \<in> {11, 10, 9, 8, 7, 6, 5, 4, 3, 2, 1, 0}"
proof -
  define k where "k = unat x"
  have k: "k < 12" using assms by (simp add: k_def word_le_nat_alt)
  have x: "x = of_nat k" by (simp add: k_def)
  from k have "k \<in> {11, 10, 9, 8, 7, 6, 5, 4, 3, 2, 1, 0}"
    unfolding insert_iff empty_iff by arith
  then show ?thesis unfolding x insert_iff empty_iff by (elim disjE) simp_all
qed

text \<open>The guard of the sequencer, on the index values that occur.\<close>

lemma guard_below_last:
  fixes x :: "32 word"
  assumes "x \<le> 11"
  shows "((scast x :: 64 word) < word_of_nat (length arc_names) - 1) = (x \<noteq> 11)"
  unfolding length_arc_names using index_cases [OF assms] unfolding insert_iff empty_iff by (elim disjE) simp_all

lemma index_succ:
  fixes x :: "32 word"
  assumes "x \<le> 11" and "x \<noteq> 11"
  shows "x + 1 \<le> 11" and "sint (x + 1) = sint x + 1"
    and "unat (scast (x + 1) :: 64 word) < length arc_names"
  unfolding length_arc_names using index_cases [OF assms(1)] assms(2) unfolding insert_iff empty_iff by (elim disjE; simp)+

lemma index_sint:
  fixes x :: "32 word"
  assumes "x \<le> 11"
  shows "0 \<le> sint x" and "sint x \<le> 11"
  using index_cases [OF assms] unfolding insert_iff empty_iff by (elim disjE; simp)+

lemma progressStory_body_frame:
  "characters (progressStory_body e) = characters e"
  "running (progressStory_body e) = running e"
  "calculation_thread (progressStory_body e) = calculation_thread e"
  "story_progression_thread (progressStory_body e) = story_progression_thread e"
  "story_arcs (progressStory_body e) = story_arcs e"
  "detached_resets (progressStory_body e) = detached_resets e"
  "gen (progressStory_body e) = gen e"
  by (simp_all add: progressStory_body_def Let_def)

lemma progressStory_body_eq:
  assumes "engine_inv e"
  shows "progressStory_body e =
     (if 0 <s days_elapsed (market_data e) \<and> sint (days_elapsed (market_data e)) smod 100 = 0 \<and>
         current_arc_index e \<noteq> 11
      then e\<lparr> current_arc_index := current_arc_index e + 1,
             market_data := (market_data e)
               \<lparr> current_arc := arc_names ! unat (scast (current_arc_index e + 1) :: 64 word),
                 major_event_active := True \<rparr> \<rparr>
      else e)"
proof -
  have arcs: "story_arcs e = arc_names" and tab: "story_arc_multipliers e = map_of arc_table"
    and le: "current_arc_index e \<le> 11"
    using assms by (simp_all add: engine_inv_def)
  have guard: "((scast (current_arc_index e) :: 64 word) < word_of_nat (length (story_arcs e)) - 1) =
      (current_arc_index e \<noteq> 11)"
    unfolding arcs by (rule guard_below_last [OF le])
  show ?thesis
  proof (cases "current_arc_index e = 11")
    case True
    then show ?thesis unfolding progressStory_body_def guard by simp
  next
    case False
    have "arc_names ! unat (scast (current_arc_index e + 1) :: 64 word) \<in> dom (map_of arc_table)"
      unfolding arc_table_dom using index_succ(3) [OF le False] by (rule nth_mem)
    then have "snd (map_index (map_of arc_table)
        (arc_names ! unat (scast (current_arc_index e + 1) :: 64 word))) = map_of arc_table"
      by (rule map_index_present)
    then show ?thesis
      unfolding progressStory_body_def guard Let_def using False arcs tab by simp
  qed
qed

lemma progressStory_body_inv:
  assumes "engine_inv e"
  shows "engine_inv (progressStory_body e)"
proof -
  have le: "current_arc_index e \<le> 11" using assms by (simp add: engine_inv_def)
  show ?thesis
  proof (cases "current_arc_index e = 11")
    case True
    then show ?thesis using assms by (simp add: progressStory_body_eq [OF assms])
  next
    case False
    have "arc_names ! unat (scast (current_arc_index e + 1) :: 64 word) \<in> set arc_names"
      using index_succ(3) [OF le False] by (rule nth_mem)
    then show ?thesis
      using assms index_succ(1) [OF le False]
      by (simp add: progressStory_body_eq [OF assms] engine_inv_def)
  qed
qed

lemma progressStory_body_mono:
  assumes "engine_inv e"
  shows "sint (current_arc_index e) \<le> sint (current_arc_index (progressStory_body e))"
proof -
  have le: "current_arc_index e \<le> 11" using assms by (simp add: engine_inv_def)
  show ?thesis
    using index_succ(2) [OF le] by (simp add: progressStory_body_eq [OF assms])
qed

lemma calculatePrices_body_inv:
  assumes "engine_inv e"
  shows "engine_inv (calculatePrices_body src clk e)"
proof -
  have "current_arc (market_data e) \<in> dom (story_arc_multipliers e)"
    using assms by (simp add: engine_inv_def arc_table_dom)
  then show ?thesis
    using assms
    by (simp add: engine_inv_def calculatePrices_body_multipliers calculatePrices_body_md
        calculatePrices_body_frame)
qed

lemma event_reset_frame:
  "characters (event_reset e) = characters e"
  "running (event_reset e) = running e"
  "calculation_thread (event_reset e) = calculation_thread e"
  "story_progression_thread (event_reset e) = story_progression_thread e"
  "story_arcs (event_reset e) = story_arcs e"
  "story_arc_multipliers (event_reset e) = story_arc_multipliers e"
  "current_arc_index (event_reset e) = current_arc_index e"
  "current_arc (market_data (event_reset e)) = current_arc (market_data e)"
  "gen (event_reset e) = gen e"
  by (simp_all add: event_reset_def)

lemma event_reset_inv: "engine_inv (event_reset e) = engine_inv e"
  by (simp add: engine_inv_def event_reset_frame)

lemma stopPriceCalculation_eq:
  "stopPriceCalculation e =
     (if story_progression_thread e
      then (progressStory_body (e\<lparr> running := False, calculation_thread := False \<rparr>))
             \<lparr> story_progression_thread := False \<rparr>
      else e\<lparr> running := False, calculation_thread := False \<rparr>)"
proof (cases "calculation_thread e")
  case True
  then show ?thesis by (simp add: stopPriceCalculation_def Let_def)
next
  case False
  then have eq: "e\<lparr> running := False, calculation_thread := False \<rparr> = e\<lparr> running := False \<rparr>"
    by (cases e) simp
  show ?thesis unfolding stopPriceCalculation_def Let_def eq by (simp add: False)
qed

lemma stopPriceCalculation_characters:
  "characters (stopPriceCalculation e) = characters e"
  by (simp add: stopPriceCalculation_eq progressStory_body_frame)

lemma stopPriceCalculation_flags:
  "\<not> running (stopPriceCalculation e)"
  "\<not> calculation_thread (stopPriceCalculation e)"
  "\<not> story_progression_thread (stopPriceCalculation e)"
  "detached_resets (stopPriceCalculation e) = detached_resets e"
  by (simp_all add: stopPriceCalculation_eq progressStory_body_frame)

lemma engine_inv_upd:
  "engine_inv (e\<lparr> running := r \<rparr>) = engine_inv e"
  "engine_inv (e\<lparr> calculation_thread := r \<rparr>) = engine_inv e"
  "engine_inv (e\<lparr> story_progression_thread := r \<rparr>) = engine_inv e"
  by (simp_all add: engine_inv_def)

lemma step_inv:
  assumes "engine_inv e"
  shows "engine_inv (step src ev e)"
proof (cases ev)
  case (Tick clk)
  then show ?thesis using assms by (simp add: calculatePrices_body_inv)
next
  case ArcPoll
  then show ?thesis using assms by (simp add: progressStory_body_inv)
next
  case EventReset
  then show ?thesis using assms by (simp add: engine_inv_def event_reset_frame)
next
  case Shutdown
  then show ?thesis using assms
    by (simp add: stopPriceCalculation_eq engine_inv_upd progressStory_body_inv)
qed

lemma step_mono:
  assumes "engine_inv e"
  shows "sint (current_arc_index e) \<le> sint (current_arc_index (step src ev e))"
proof (cases ev)
  case (Tick clk)
  then show ?thesis by (simp add: calculatePrices_body_frame)
next
  case ArcPoll
  then show ?thesis using assms by (simp add: progressStory_body_mono)
next
  case EventReset
  then show ?thesis by (simp add: event_reset_frame)
next
  case Shutdown
  have "engine_inv (e\<lparr> running := False, calculation_thread := False \<rparr>)"
    using assms by (simp add: engine_inv_def)
  from progressStory_body_mono [OF this] Shutdown show ?thesis
    by (simp add: stopPriceCalculation_eq)
qed

lemma step_length: "length (characters (step src ev e)) = length (characters e)"
  by (cases ev)
     (simp_all add: calculatePrices_body_frame progressStory_body_frame event_reset_frame
        stopPriceCalculation_characters)

lemma started_engine_simps:
  "characters (started_engine g0 now clk) = roster clk"
  "market_data (started_engine g0 now clk) = MarketData_ctor now"
  "running (started_engine g0 now clk) = True"
  "calculation_thread (started_engine g0 now clk) = True"
  "story_progression_thread (started_engine g0 now clk) = True"
  "gen (started_engine g0 now clk) = g0"
  "story_arc_multipliers (started_engine g0 now clk) = map_of arc_table"
  "story_arcs (started_engine g0 now clk) = arc_names"
  "current_arc_index (started_engine g0 now clk) = 0"
  "detached_resets (started_engine g0 now clk) = 0"
  by (simp_all add: started_engine_def startPriceCalculation_def loadCharacters_def
      PriceEngine_ctor_def MarketData_ctor_def arc_names_def)

lemma started_engine_inv: "engine_inv (started_engine g0 now clk)"
  by (simp add: engine_inv_def started_engine_simps MarketData_ctor_def arc_names_def)

lemma run_nil: "run src [] e = e"
  by (simp add: run_def)

lemma run_cons: "run src (ev # evs) e = run src evs (step src ev e)"
  by (simp add: run_def)

lemma run_append: "run src (evs @ evs') e = run src evs' (run src evs e)"
  by (simp add: run_def)

lemma run_inv: "engine_inv e \<Longrightarrow> engine_inv (run src evs e)"
  unfolding run_def by (induction evs arbitrary: e) (simp_all add: step_inv)

lemma run_mono:
  "engine_inv e \<Longrightarrow> sint (current_arc_index e) \<le> sint (current_arc_index (run src evs e))"
  unfolding run_def
proof (induction evs arbitrary: e)
  case Nil
  then show ?case by simp
next
  case (Cons ev evs)
  have "sint (current_arc_index e) \<le> sint (current_arc_index (step src ev e))"
    by (rule step_mono [OF Cons.prems])
  also have "\<dots> \<le> sint (current_arc_index (fold (step src) evs (step src ev e)))"
    by (rule Cons.IH [OF step_inv [OF Cons.prems]])
  finally show ?case by simp
qed

lemma run_length: "length (characters (run src evs e)) = length (characters e)"
  unfolding run_def by (induction evs arbitrary: e) (simp_all add: step_length)

subsection \<open>Concrete runs under a source of fixed draws\<close>

lemma east_blue_base:
  "fst (map_index (map_of arc_table) ''East Blue Saga'') = 1"
  by (simp add: map_index_def arc_table_def)

lemma arc_names_1: "arc_names ! Suc 0 = ''Alabasta Saga''"
  by (simp add: arc_names_def)

lemma length_roster: "length (roster clk) = 17"
  by (simp add: roster_def)


lemma roster_14:
  "roster clk ! 14 = Character_ctor 15 ''Akainu'' ''Marines'' 0 0.16 (clk 14)"
  by (simp add: roster_def)


lemma first_tick_context:
  "characters (started_engine g0 now clk0) = roster clk0"
  "length (characters (calculatePrices_body src clk (started_engine g0 now clk0))) = 17"
  "current_arc (market_data (calculatePrices_body src clk (started_engine g0 now clk0))) =
     ''East Blue Saga''"
  "story_arc_multipliers (calculatePrices_body src clk (started_engine g0 now clk0)) =
     map_of arc_table"
proof -
  show "characters (started_engine g0 now clk0) = roster clk0"
    by (simp add: started_engine_simps)
  show "length (characters (calculatePrices_body src clk (started_engine g0 now clk0))) = 17"
    by (simp add: calculatePrices_body_frame started_engine_simps length_roster)
  show "current_arc (market_data (calculatePrices_body src clk (started_engine g0 now clk0))) =
     ''East Blue Saga''"
    by (simp add: calculatePrices_body_md started_engine_simps MarketData_ctor_def)
  have "engine_inv (calculatePrices_body src clk (started_engine g0 now clk0))"
    by (rule calculatePrices_body_inv [OF started_engine_inv])
  then show "story_arc_multipliers (calculatePrices_body src clk (started_engine g0 now clk0)) =
     map_of arc_table"
    by (simp add: engine_inv_def)
qed

text \<open>The entity at position 14 of the roster, under a source of fixed draws.\<close>

lemma akainu_start:
  fixes e :: "unit PriceEngine"
  assumes "characters e = roster clk0"
  shows "current_price (characters (calculatePrices_body (fixed_source z u 1 k) clk e) ! 14) = 0.5"
proof -
  have "14 < length (characters e)" by (simp add: assms length_roster)
  then have "current_price (characters (calculatePrices_body (fixed_source z u 1 k) clk e) ! 14) =
      fst (calculateNewPrice (fixed_source z u 1 k) e (characters e ! 14))"
    by (rule tick_price_unit)
  also have "\<dots> = 0.5"
    by (subst calculateNewPrice_zero)
       (simp_all add: assms roster_14 Character_ctor_def fixed_source_def)
  finally show ?thesis .
qed

lemma akainu_fields:
  assumes "characters e = roster clk0"
  shows "bounty (characters (calculatePrices_body src clk e) ! 14) = 0"
    and "crew (characters (calculatePrices_body src clk e) ! 14) = ''Marines''"
    and "name (characters (calculatePrices_body src clk e) ! 14) = ''Akainu''"
    and "base_growth_rate (characters (calculatePrices_body src clk e) ! 14) = 0.16"
    and "volatility (characters (calculatePrices_body src clk e) ! 14) = 0.3"
proof -
  have i: "14 < length (characters e)" by (simp add: assms length_roster)
  show "bounty (characters (calculatePrices_body src clk e) ! 14) = 0"
    by (subst tick_field_nth [OF _ i]) (simp_all add: assms roster_14 Character_ctor_def)
  show "crew (characters (calculatePrices_body src clk e) ! 14) = ''Marines''"
    by (subst tick_field_nth [OF _ i]) (simp_all add: assms roster_14 Character_ctor_def)
  show "name (characters (calculatePrices_body src clk e) ! 14) = ''Akainu''"
    by (subst tick_field_nth [OF _ i]) (simp_all add: assms roster_14 Character_ctor_def)
  show "base_growth_rate (characters (calculatePrices_body src clk e) ! 14) = 0.16"
    by (subst tick_field_nth [OF _ i]) (simp_all add: assms roster_14 Character_ctor_def)
  show "volatility (characters (calculatePrices_body src clk e) ! 14) = 0.3"
    by (subst tick_field_nth [OF _ i]) (simp_all add: assms roster_14 Character_ctor_def)
qed

lemma akainu_next:
  assumes "bounty c = 0" "crew c = ''Marines''" "name c = ''Akainu''"
    "base_growth_rate c = 0.16" "volatility c = 0.3" "current_price c = 0.5"
    "current_arc (market_data e) = ''East Blue Saga''"
    "story_arc_multipliers e = map_of arc_table"
  shows "fst (calculateNewPrice (fixed_source 0 u w k) e c) =
         (if major_event_active (market_data e) then 0.99 else 0.66)"
proof -
  have m: "fst (getStoryMultiplier e c) = 1"
    by (simp add: getStoryMultiplier_fst assms east_blue_base)
  show ?thesis
    unfolding calculateNewPrice_fst m
    by (simp add: assms fixed_source_def)
qed

lemma akainu_tick:
  fixes e :: "unit PriceEngine"
  assumes "14 < length (characters e)"
    and "bounty (characters e ! 14) = 0" "crew (characters e ! 14) = ''Marines''"
    "name (characters e ! 14) = ''Akainu''"
    "base_growth_rate (characters e ! 14) = 0.16" "volatility (characters e ! 14) = 0.3"
    "current_price (characters e ! 14) = 0.5"
    "current_arc (market_data e) = ''East Blue Saga''"
    "story_arc_multipliers e = map_of arc_table"
  shows "current_price (characters (calculatePrices_body (fixed_source 0 u w k) clk e) ! 14) =
         (if major_event_active (market_data e) then 0.99 else 0.66)"
  by (simp only: tick_price_unit [OF assms(1)] akainu_next [OF assms(2-)])

lemma marine_next:
  assumes "bounty c = 0" "crew c = ''Marines''" "name c = ''Akainu''"
    "base_growth_rate c = 0.16" "volatility c = 0.3" "current_price c = p" "p \<noteq> 0"
    "current_arc (market_data e) = ''East Blue Saga''"
    "story_arc_multipliers e = map_of arc_table"
  shows "fst (calculateNewPrice (fixed_source 0 u w k) e c) =
         next14 (major_event_active (market_data e)) p"
proof -
  have m: "fst (getStoryMultiplier e c) = 1"
    by (simp add: getStoryMultiplier_fst assms east_blue_base)
  show ?thesis
    unfolding calculateNewPrice_fst m next14_def
    by (simp add: assms fixed_source_def)
qed

lemma next14_pos: "next14 f p \<noteq> 0"
  by (simp add: next14_def)

lemma entity14_tick:
  assumes "entity14_at e p" and "p \<noteq> 0"
  shows "entity14_at (calculatePrices_body (fixed_source 0 u w k) clk e)
           (next14 (major_event_active (market_data e)) p)"
proof -
  let ?e' = "calculatePrices_body (fixed_source 0 u w k) clk e"
  from assms(1) have i: "14 < length (characters e)" and inv: "engine_inv e"
    and r: "running e" "calculation_thread e"
    and arc: "current_arc (market_data e) = ''East Blue Saga''"
    and c: "bounty (characters e ! 14) = 0" "crew (characters e ! 14) = ''Marines''"
      "name (characters e ! 14) = ''Akainu''" "base_growth_rate (characters e ! 14) = 0.16"
      "volatility (characters e ! 14) = 0.3" "current_price (characters e ! 14) = p"
    by (simp_all add: entity14_at_def)
  from inv have tab: "story_arc_multipliers e = map_of arc_table" by (simp add: engine_inv_def)
  have "current_price (characters ?e' ! 14) = next14 (major_event_active (market_data e)) p"
    by (simp only: tick_price_unit [OF i] marine_next [OF c assms(2) arc tab])
  moreover have "bounty (characters ?e' ! 14) = 0" "crew (characters ?e' ! 14) = ''Marines''"
      "name (characters ?e' ! 14) = ''Akainu''" "base_growth_rate (characters ?e' ! 14) = 0.16"
      "volatility (characters ?e' ! 14) = 0.3"
    by (simp_all add: tick_field_nth [OF _ i] c)
  ultimately show ?thesis
    using r i arc calculatePrices_body_inv [OF inv, of "fixed_source 0 u w k" clk]
    by (simp add: entity14_at_def calculatePrices_body_frame calculatePrices_body_md)
qed

text \<open>Ticks under a source of fixed draws whose event draw stays at or above 0.1.\<close>

lemma quiet_ticks:
  assumes "running e" and "calculation_thread e" and "\<not> u < 0.1"
  shows "running (run (fixed_source z u w k) (replicate n (Tick clk)) e) \<and>
         calculation_thread (run (fixed_source z u w k) (replicate n (Tick clk)) e) \<and>
         story_progression_thread (run (fixed_source z u w k) (replicate n (Tick clk)) e) =
           story_progression_thread e \<and>
         days_elapsed (market_data (run (fixed_source z u w k) (replicate n (Tick clk)) e)) =
           days_elapsed (market_data e) + of_nat n \<and>
         major_event_active (market_data (run (fixed_source z u w k) (replicate n (Tick clk)) e)) =
           major_event_active (market_data e) \<and>
         detached_resets (run (fixed_source z u w k) (replicate n (Tick clk)) e) =
           detached_resets e \<and>
         current_arc_index (run (fixed_source z u w k) (replicate n (Tick clk)) e) =
           current_arc_index e"
  using assms(1,2)
proof (induction n arbitrary: e)
  case 0
  then show ?case by (simp add: run_nil)
next
  case (Suc n)
  let ?e1 = "calculatePrices_body (fixed_source z u w k) clk e"
  have r: "running ?e1" "calculation_thread ?e1"
    using Suc.prems by (simp_all add: calculatePrices_body_frame)
  have s: "run (fixed_source z u w k) (replicate (Suc n) (Tick clk)) e =
           run (fixed_source z u w k) (replicate n (Tick clk)) ?e1"
    using Suc.prems by (simp add: run_cons)
  show ?case
    unfolding s using Suc.IH [OF r] assms(3)
    by (simp add: calculatePrices_body_frame calculatePrices_body_md calculatePrices_body_fixed)
qed

text \<open>Ticks under a source of fixed draws whose event draw is below 0.1: an event fires in each.\<close>

lemma eventful_ticks:
  assumes "entity14_at e p" and "p \<noteq> 0" and "major_event_active (market_data e)" and "u < 0.1"
  shows "entity14_at (run (fixed_source 0 u w k) (replicate n (Tick clk)) e) ((next14 True ^^ n) p) \<and>
         major_event_active (market_data (run (fixed_source 0 u w k) (replicate n (Tick clk)) e)) \<and>
         detached_resets (run (fixed_source 0 u w k) (replicate n (Tick clk)) e) =
           detached_resets e + n"
  using assms(1-3)
proof (induction n arbitrary: e p)
  case 0
  then show ?case by (simp add: run_nil)
next
  case (Suc n)
  let ?e1 = "calculatePrices_body (fixed_source 0 u w k) clk e"
  from Suc.prems(1) have r: "running e" "calculation_thread e" by (simp_all add: entity14_at_def)
  have s: "run (fixed_source 0 u w k) (replicate (Suc n) (Tick clk)) e =
           run (fixed_source 0 u w k) (replicate n (Tick clk)) ?e1"
    using r by (simp add: run_cons)
  have a: "entity14_at ?e1 (next14 True p)"
    using entity14_tick [OF Suc.prems(1,2), of u w k clk] Suc.prems(3) by simp
  have f: "major_event_active (market_data ?e1)"
    using assms(4) by (simp add: calculatePrices_body_fixed)
  have d: "detached_resets ?e1 = detached_resets e + 1"
    using assms(4) by (simp add: calculatePrices_body_fixed)
  show ?case
    unfolding s using Suc.IH [OF a next14_pos f] d by (simp add: funpow_swap1)
qed

lemma event_reset_entity14:
  assumes "entity14_at e p"
  shows "entity14_at (event_reset e) p"
  using assms by (simp add: entity14_at_def event_reset_inv event_reset_frame)

lemma next14_nine: "(next14 True ^^ 9) (1 / 2) = 544819926721490739 / 3906250000000000"
  by (simp add: eval_nat_numeral next14_def)

subsection \<open>C1: the price stays within its bounds\<close>








subsection \<open>C2: the product of the factors\<close>

lemma sint_succ_64:
  fixes b :: "64 word"
  assumes "sint b < 2 ^ 63 - 1"
  shows "sint (b + 1) = sint b + 1"
proof -
  have lo: "- (2 ^ 63) \<le> sint b" using sint_ge [of b] by simp
  have "sint (b + 1) = signed_take_bit 63 (sint b + 1)"
    by (simp add: sint_word_ariths)
  also have "\<dots> = sint b + 1"
    using lo assms by (intro signed_take_bit_int_eq_self) simp_all
  finally show ?thesis .
qed

lemma bounty_factor_eq:
  assumes "0 \<le> sint (bounty c)" and "sint (bounty c) < 2 ^ 63 - 1"
  shows "(if 0 <s bounty c
          then 1.0 + (log 10 (real_of_int (sint (bounty c + 1))) * 0.02) else 1.0) =
         1 + log 10 (real_of_int (sint (bounty c)) + 1) * 0.02"
proof (cases "0 <s bounty c")
  case True
  then show ?thesis using sint_succ_64 [OF assms(2)] by simp
next
  case False
  then have "sint (bounty c) = 0" using assms(1) by (simp add: word_sless_alt)
  with False show ?thesis by simp
qed

text \<open>
  Claim C2. For an entity whose price is not zero and whose reputation is non-negative
  (and below the largest \<^verbatim>\<open>long long\<close>, so that \<^verbatim>\<open>bounty + 1\<close> does not overflow), the
  price model returns the current price multiplied by the growth factor
  \<open>1 + growth_rate * arc_multiplier * cold_start_boost\<close> (the boost is 2 below the
  threshold 10 and 1 otherwise), the volatility factor, the reputation factor
  \<open>1 + log10 (reputation + 1) * 0.02\<close>, the group factor and the active-event factor,
  clamped to \<open>[0.01, 10000]\<close>; a reputation of 0 gives the reputation factor 1.
\<close>

theorem price_model_product:
  assumes "current_price c \<noteq> 0" and "0 \<le> sint (bounty c)" and "sint (bounty c) < 2 ^ 63 - 1"
  shows "fst (calculateNewPrice src e c) =
     min (max
       (current_price c *
        (1 + base_growth_rate c * fst (getStoryMultiplier e c) *
             (if current_price c < 10 then 2 else 1)) *
        (1 + fst (price_volatility src (gen e)) * volatility c) *
        (1 + log 10 (real_of_int (sint (bounty c)) + 1) * 0.02) *
        (if crew c = ''Straw Hat Pirates'' then 1.2
         else if crew c = ''Beast Pirates'' \<or> crew c = ''Big Mom Pirates'' then 1.15 else 1) *
        (if major_event_active (market_data e) then 1.5 else 1))
       0.01) 10000 \<and>
     (sint (bounty c) = 0 \<longrightarrow> 1 + log 10 (real_of_int (sint (bounty c)) + 1) * 0.02 = (1::real))"
proof
  have growth: "(if current_price c < 10.0 then base_growth_rate c * 2.0 else base_growth_rate c) *
          fst (getStoryMultiplier e c) =
        base_growth_rate c * fst (getStoryMultiplier e c) * (if current_price c < 10 then 2 else 1)"
    by simp
  have nz: "(current_price c = 0.0) = False" using assms(1) by simp
  show "fst (calculateNewPrice src e c) =
     min (max
       (current_price c *
        (1 + base_growth_rate c * fst (getStoryMultiplier e c) *
             (if current_price c < 10 then 2 else 1)) *
        (1 + fst (price_volatility src (gen e)) * volatility c) *
        (1 + log 10 (real_of_int (sint (bounty c)) + 1) * 0.02) *
        (if crew c = ''Straw Hat Pirates'' then 1.2
         else if crew c = ''Beast Pirates'' \<or> crew c = ''Big Mom Pirates'' then 1.15 else 1) *
        (if major_event_active (market_data e) then 1.5 else 1))
       0.01) 10000"
    unfolding calculateNewPrice_fst nz if_False growth bounty_factor_eq [OF assms(2,3)]
    by (simp split del: if_split cong: if_cong)
  show "sint (bounty c) = 0 \<longrightarrow> 1 + log 10 (real_of_int (sint (bounty c)) + 1) * 0.02 = (1::real)"
    by simp
qed

text \<open>The instance of C2 at an entity of price 2 and reputation 9 in the first arc.\<close>

theorem price_model_product_witness:
  "current_price ((Character_ctor 1 ''Monkey D. Luffy'' ''Straw Hat Pirates'' 9 0.15 0)
        \<lparr> current_price := 2 \<rparr>) \<noteq> 0 \<and>
   0 \<le> sint (bounty ((Character_ctor 1 ''Monkey D. Luffy'' ''Straw Hat Pirates'' 9 0.15 0)
        \<lparr> current_price := 2 \<rparr>)) \<and>
   sint (bounty ((Character_ctor 1 ''Monkey D. Luffy'' ''Straw Hat Pirates'' 9 0.15 0)
        \<lparr> current_price := 2 \<rparr>)) < 2 ^ 63 - 1 \<and>
   fst (calculateNewPrice (fixed_source 0 0.5 1 0) (started_engine () 0 (\<lambda>k. 0))
        ((Character_ctor 1 ''Monkey D. Luffy'' ''Straw Hat Pirates'' 9 0.15 0)
        \<lparr> current_price := 2 \<rparr>)) = 3.1824"
proof -
  define C where "C = (Character_ctor 1 ''Monkey D. Luffy'' ''Straw Hat Pirates'' 9 0.15 0)
        \<lparr> current_price := 2 \<rparr>"
  define E :: "unit PriceEngine" where "E = started_engine () 0 (\<lambda>k. 0)"
  define S :: "unit random_source" where "S = fixed_source 0 0.5 1 0"
  have C: "current_price C = 2" "bounty C = 9" "base_growth_rate C = 0.15" "volatility C = 0.3"
    "crew C = ''Straw Hat Pirates''" "name C = ''Monkey D. Luffy''"
    by (simp_all add: C_def Character_ctor_def)
  have E: "current_arc (market_data E) = ''East Blue Saga''" "\<not> major_event_active (market_data E)"
    "story_arc_multipliers E = map_of arc_table"
    by (simp_all add: E_def started_engine_simps MarketData_ctor_def)
  have m: "fst (getStoryMultiplier E C) = 1"
    by (simp add: getStoryMultiplier_fst E C east_blue_base)
  have z: "fst (price_volatility S g) = 0" for g
    by (simp add: S_def fixed_source_def)
  have h1: "current_price C \<noteq> 0" and h2: "0 \<le> sint (bounty C)"
    and h3: "sint (bounty C) < 2 ^ 63 - 1"
    by (simp_all add: C)
  have "fst (calculateNewPrice S E C) = 3.1824"
    using price_model_product [OF h1 h2 h3, of S E]
    by (simp add: C E m z)
  with h1 h2 h3 show ?thesis unfolding C_def E_def S_def by blast
qed

subsection \<open>C3: the starting price\<close>



subsection \<open>C4: the percentage change\<close>

text \<open>
  Claim C4. After a tick the recorded percentage change of an entity is
  \<open>(new - old) / old * 100\<close> when the old price is positive, 100 when the old price is 0
  and the new one positive, and 0 when both are 0.
\<close>

theorem percentage_change_law:
  assumes "i < length (characters e)"
  shows "(0 < current_price (characters e ! i) \<longrightarrow>
            weekly_change (characters (calculatePrices_body src clk e) ! i) =
              (current_price (characters (calculatePrices_body src clk e) ! i) -
               current_price (characters e ! i)) / current_price (characters e ! i) * 100) \<and>
         (current_price (characters e ! i) = 0 \<and>
          0 < current_price (characters (calculatePrices_body src clk e) ! i) \<longrightarrow>
            weekly_change (characters (calculatePrices_body src clk e) ! i) = 100) \<and>
         (current_price (characters e ! i) = 0 \<and>
          current_price (characters (calculatePrices_body src clk e) ! i) = 0 \<longrightarrow>
            weekly_change (characters (calculatePrices_body src clk e) ! i) = 0)"
  by (rule tick_pointwise_any
        [where R = "\<lambda>c c'.
           (0 < current_price c \<longrightarrow>
              weekly_change c' = (current_price c' - current_price c) / current_price c * 100) \<and>
           (current_price c = 0 \<and> 0 < current_price c' \<longrightarrow> weekly_change c' = 100) \<and>
           (current_price c = 0 \<and> current_price c' = 0 \<longrightarrow> weekly_change c' = 0)", OF _ assms])
     simp

text \<open>The instance of C4 at the first two ticks: a change of 100, then of 32 per cent.\<close>

theorem percentage_change_law_witness:
  "14 < length (characters (started_engine () 0 (\<lambda>k. 0))) \<and>
   current_price (characters (started_engine () 0 (\<lambda>k. 0)) ! 14) = 0 \<and>
   current_price (characters
       (calculatePrices_body (fixed_source 0 0.5 1 0) (\<lambda>k. 0) (started_engine () 0 (\<lambda>k. 0))) ! 14)
     = 0.5 \<and>
   weekly_change (characters
       (calculatePrices_body (fixed_source 0 0.5 1 0) (\<lambda>k. 0) (started_engine () 0 (\<lambda>k. 0))) ! 14)
     = 100 \<and>
   current_price (characters
       (calculatePrices_body (fixed_source 0 0.5 1 0) (\<lambda>k. 0)
         (calculatePrices_body (fixed_source 0 0.5 1 0) (\<lambda>k. 0) (started_engine () 0 (\<lambda>k. 0)))) ! 14)
     = 0.66 \<and>
   weekly_change (characters
       (calculatePrices_body (fixed_source 0 0.5 1 0) (\<lambda>k. 0)
         (calculatePrices_body (fixed_source 0 0.5 1 0) (\<lambda>k. 0) (started_engine () 0 (\<lambda>k. 0)))) ! 14)
     = 32"
proof -
  define S :: "unit random_source" where "S = fixed_source 0 0.5 1 0"
  define E :: "unit PriceEngine" where "E = started_engine () 0 (\<lambda>k. 0)"
  define E1 where "E1 = calculatePrices_body S (\<lambda>k. 0) E"
  define E2 where "E2 = calculatePrices_body S (\<lambda>k. 0) E1"
  have chars: "characters E = roster (\<lambda>k. 0)" by (simp add: E_def started_engine_simps)
  have i: "14 < length (characters E)" by (simp add: chars length_roster)
  have z: "current_price (characters E ! 14) = 0"
    by (simp add: chars roster_14 Character_ctor_def)
  have p1: "current_price (characters E1 ! 14) = 0.5"
    unfolding E1_def S_def by (rule akainu_start [OF chars])
  have w1: "weekly_change (characters E1 ! 14) = 100"
    using percentage_change_law [OF i, of S "\<lambda>k. 0"] z p1 unfolding E1_def by simp
  have i1: "14 < length (characters E1)"
    unfolding E1_def E_def by (simp add: first_tick_context)
  have flag: "\<not> major_event_active (market_data E1)"
    unfolding E1_def S_def E_def
    by (simp add: calculatePrices_body_fixed started_engine_simps MarketData_ctor_def)
  have "current_price (characters E2 ! 14) =
      (if major_event_active (market_data E1) then 0.99 else 0.66)"
    unfolding E2_def S_def
    by (rule akainu_tick [OF i1 _ _ _ _ _ p1])
       (simp_all add: E1_def E_def akainu_fields [OF first_tick_context(1)] first_tick_context)
  with flag have p2: "current_price (characters E2 ! 14) = 0.66" by simp
  have w2: "weekly_change (characters E2 ! 14) = 32"
    using percentage_change_law [OF i1, of S "\<lambda>k. 0"] p1 p2 unfolding E2_def by simp
  from i z p1 w1 p2 w2 show ?thesis unfolding E2_def E1_def S_def E_def by blast
qed

subsection \<open>C5: the step of the arc sequencer\<close>

text \<open>
  Claim C5 at a concrete run: a hundred ticks without a random event, then a wake-up of
  the arc sequencer. The index advances from 0 to 1, the current arc becomes the second
  one and the flag is set, but no deactivation is outstanding: fifty ticks later the flag
  is still set, and a step of a detached thread finds none to run.
\<close>

theorem arc_advance_flag_stays_set:
  "\<not> major_event_active (market_data
       (run (fixed_source 0 0.5 1 0) (replicate 100 (Tick (\<lambda>k. 0)))
          (started_engine () 0 (\<lambda>k. 0)))) \<and>
   current_arc_index
       (run (fixed_source 0 0.5 1 0) (replicate 100 (Tick (\<lambda>k. 0)) @ [ArcPoll])
          (started_engine () 0 (\<lambda>k. 0))) = 1 \<and>
   current_arc (market_data
       (run (fixed_source 0 0.5 1 0) (replicate 100 (Tick (\<lambda>k. 0)) @ [ArcPoll])
          (started_engine () 0 (\<lambda>k. 0)))) = ''Alabasta Saga'' \<and>
   major_event_active (market_data
       (run (fixed_source 0 0.5 1 0) (replicate 100 (Tick (\<lambda>k. 0)) @ [ArcPoll])
          (started_engine () 0 (\<lambda>k. 0)))) \<and>
   detached_resets
       (run (fixed_source 0 0.5 1 0) (replicate 100 (Tick (\<lambda>k. 0)) @ [ArcPoll])
          (started_engine () 0 (\<lambda>k. 0))) = 0 \<and>
   major_event_active (market_data
       (run (fixed_source 0 0.5 1 0)
          (replicate 100 (Tick (\<lambda>k. 0)) @ [ArcPoll] @ replicate 50 (Tick (\<lambda>k. 0)) @ [EventReset])
          (started_engine () 0 (\<lambda>k. 0))))"
proof -
  define S :: "unit random_source" where "S = fixed_source 0 0.5 1 0"
  define E :: "unit PriceEngine" where "E = started_engine () 0 (\<lambda>k. 0)"
  define E100 where "E100 = run S (replicate 100 (Tick (\<lambda>k. 0))) E"
  define EP where "EP = step S ArcPoll E100"
  define E150 where "E150 = run S (replicate 50 (Tick (\<lambda>k. 0))) EP"
  have q: "\<not> (0.5::real) < 0.1" by simp
  have E: "running E" "calculation_thread E" "story_progression_thread E"
    by (simp_all add: E_def started_engine_simps)
  note t100 = quiet_ticks [OF E(1,2) q, of 0 1 0 100 "\<lambda>k. 0"]
  have r100: "running E100" "calculation_thread E100" "story_progression_thread E100"
    unfolding E100_def S_def using t100 E(3) by simp_all
  have days: "days_elapsed (market_data E100) = 100"
    unfolding E100_def S_def using t100 by (simp add: E_def started_engine_simps MarketData_ctor_def)
  have f100: "\<not> major_event_active (market_data E100)"
    unfolding E100_def S_def using t100 by (simp add: E_def started_engine_simps MarketData_ctor_def)
  have d100: "detached_resets E100 = 0" and i100: "current_arc_index E100 = 0"
    unfolding E100_def S_def using t100 by (simp_all add: E_def started_engine_simps)
  have inv: "engine_inv E100"
    unfolding E100_def E_def by (rule run_inv [OF started_engine_inv])
  have EP: "EP = E100\<lparr> current_arc_index := 1,
             market_data := (market_data E100)
               \<lparr> current_arc := ''Alabasta Saga'', major_event_active := True \<rparr> \<rparr>"
    unfolding EP_def using r100
    by (simp add: progressStory_body_eq [OF inv] days i100 smod_int_alt_def arc_names_1
        word_sless_alt)
  have rP: "running EP" "calculation_thread EP"
    and iP: "current_arc_index EP = 1"
    and aP: "current_arc (market_data EP) = ''Alabasta Saga''"
    and fP: "major_event_active (market_data EP)"
    and dP: "detached_resets EP = 0"
    unfolding EP using r100 d100 by simp_all
  note t150 = quiet_ticks [OF rP q, of 0 1 0 50 "\<lambda>k. 0"]
  have f150: "major_event_active (market_data E150)" and d150: "detached_resets E150 = 0"
    unfolding E150_def S_def using t150 fP dP by simp_all
  have fin: "major_event_active (market_data (step S EventReset E150))"
    using f150 d150 by simp
  from f100 iP aP fP dP fin show ?thesis
    unfolding E150_def EP_def E100_def S_def E_def
    by (simp add: run_append run_cons run_nil)
qed

subsection \<open>C6: the arc index\<close>

text \<open>
  Claim C6. Along every run from the started engine the arc index never decreases, is
  never negative and never exceeds the length of the arc table minus one.
\<close>

theorem arc_index_monotone_bounded:
  "sint (current_arc_index (run src evs (started_engine g0 now clk))) \<le>
     sint (current_arc_index (run src (evs @ evs') (started_engine g0 now clk))) \<and>
   0 \<le> sint (current_arc_index (run src evs (started_engine g0 now clk))) \<and>
   sint (current_arc_index (run src evs (started_engine g0 now clk))) \<le>
     int (length (story_arcs (run src evs (started_engine g0 now clk)))) - 1 \<and>
   length (story_arcs (run src evs (started_engine g0 now clk))) = length arc_table"
proof -
  let ?e = "run src evs (started_engine g0 now clk)"
  have inv: "engine_inv ?e" by (rule run_inv [OF started_engine_inv])
  then have le: "current_arc_index ?e \<le> 11" and arcs: "story_arcs ?e = arc_names"
    by (simp_all add: engine_inv_def)
  have "length arc_table = 12" by (simp add: arc_table_def)
  then show ?thesis
    using run_mono [OF inv, of src evs'] index_sint [OF le] arcs
    by (simp add: run_append length_arc_names)
qed

subsection \<open>C7: the override table\<close>

lemma lookup3:
  "(case map_of [((n1, a1), v1), ((n2, a2), v2), ((n3, a3), v3)] (n, a) of
      Some k \<Rightarrow> k | None \<Rightarrow> (1::real)) =
     (if a = a1 \<and> n = n1 then v1
      else if a = a2 \<and> n = n2 then v2
      else if a = a3 \<and> n = n3 then v3
      else 1)"
  by auto

lemma override_lookup:
  "(case map_of arc_overrides (n, a) of Some k \<Rightarrow> k | None \<Rightarrow> 1) =
     (if a = ''Summit War Saga'' \<and> n = ''Monkey D. Luffy'' then 2.0
      else if a = ''Wano Country Saga'' \<and> n = ''Monkey D. Luffy'' then 3.0
      else if a = ''Wano Country Saga'' \<and> n = ''Kaido'' then 2.5
      else 1)"
  unfolding arc_overrides_def by (rule lookup3)

text \<open>
  Claim C7. The arc multiplier of an entity is the base value of the current arc in the
  multiplier table (0 for an arc that the table lacks), multiplied by the entry of the
  override table for the pair (entity name, arc name) when there is one, and used
  unchanged for every other pair; the override table has exactly three entries.
\<close>

theorem arc_multiplier_overrides:
  "fst (getStoryMultiplier e c) =
     (case story_arc_multipliers e (current_arc (market_data e)) of Some v \<Rightarrow> v | None \<Rightarrow> 0) *
     (case map_of arc_overrides (name c, current_arc (market_data e)) of Some k \<Rightarrow> k | None \<Rightarrow> 1) \<and>
   length arc_overrides = 3 \<and> distinct (map fst arc_overrides)"
proof (intro conjI)
  show "fst (getStoryMultiplier e c) =
     (case story_arc_multipliers e (current_arc (market_data e)) of Some v \<Rightarrow> v | None \<Rightarrow> 0) *
     (case map_of arc_overrides (name c, current_arc (market_data e)) of Some k \<Rightarrow> k | None \<Rightarrow> 1)"
    unfolding getStoryMultiplier_fst override_lookup map_index_fst ..
  show "length arc_overrides = 3" by (simp add: arc_overrides_def)
  show "distinct (map fst arc_overrides)" by (simp add: arc_overrides_def)
qed

subsection \<open>C8: what determines the prices\<close>

text \<open>
  Claim C8, as amended. The price that the model returns, and the generator state that it
  leaves, are determined by the entity, the current arc, the active-event flag, the
  multiplier table and the generator state of the engine: two engines that agree on
  these give the same result.
\<close>

theorem price_model_deterministic:
  assumes "current_arc (market_data e1) = current_arc (market_data e2)"
    and "major_event_active (market_data e1) = major_event_active (market_data e2)"
    and "story_arc_multipliers e1 = story_arc_multipliers e2"
    and "gen e1 = gen e2"
  shows "fst (calculateNewPrice src e1 c) = fst (calculateNewPrice src e2 c) \<and>
         gen (snd (calculateNewPrice src e1 c)) = gen (snd (calculateNewPrice src e2 c))"
  using calculateNewPrice_cong [of e1 e2 src c] assms by simp

text \<open>
  The instance of C8 at the started engine and the engine after its first tick, which
  differ in the elapsed days.
\<close>

theorem price_model_deterministic_witness:
  "current_arc (market_data (started_engine () 0 (\<lambda>k. 0))) =
     current_arc (market_data
       (calculatePrices_body (fixed_source 0 0.5 1 0) (\<lambda>k. 0) (started_engine () 0 (\<lambda>k. 0)))) \<and>
   major_event_active (market_data (started_engine () 0 (\<lambda>k. 0))) =
     major_event_active (market_data
       (calculatePrices_body (fixed_source 0 0.5 1 0) (\<lambda>k. 0) (started_engine () 0 (\<lambda>k. 0)))) \<and>
   story_arc_multipliers (started_engine () 0 (\<lambda>k. 0)) =
     story_arc_multipliers
       (calculatePrices_body (fixed_source 0 0.5 1 0) (\<lambda>k. 0) (started_engine () 0 (\<lambda>k. 0))) \<and>
   gen (started_engine () 0 (\<lambda>k. 0)) =
     gen (calculatePrices_body (fixed_source 0 0.5 1 0) (\<lambda>k. 0) (started_engine () 0 (\<lambda>k. 0))) \<and>
   days_elapsed (market_data (started_engine () 0 (\<lambda>k. 0))) \<noteq>
     days_elapsed (market_data
       (calculatePrices_body (fixed_source 0 0.5 1 0) (\<lambda>k. 0) (started_engine () 0 (\<lambda>k. 0)))) \<and>
   fst (calculateNewPrice (fixed_source 0 0.5 1 0) (started_engine () 0 (\<lambda>k. 0))
         (characters
           (calculatePrices_body (fixed_source 0 0.5 1 0) (\<lambda>k. 0) (started_engine () 0 (\<lambda>k. 0)))
           ! 14)) =
   fst (calculateNewPrice (fixed_source 0 0.5 1 0)
         (calculatePrices_body (fixed_source 0 0.5 1 0) (\<lambda>k. 0) (started_engine () 0 (\<lambda>k. 0)))
         (characters
           (calculatePrices_body (fixed_source 0 0.5 1 0) (\<lambda>k. 0) (started_engine () 0 (\<lambda>k. 0)))
           ! 14))"
proof -
  define S :: "unit random_source" where "S = fixed_source 0 0.5 1 0"
  define E :: "unit PriceEngine" where "E = started_engine () 0 (\<lambda>k. 0)"
  define E1 where "E1 = calculatePrices_body S (\<lambda>k. 0) E"
  have h1: "current_arc (market_data E) = current_arc (market_data E1)"
    unfolding E1_def by (simp add: calculatePrices_body_md)
  have h2: "major_event_active (market_data E) = major_event_active (market_data E1)"
    unfolding E1_def S_def by (simp add: calculatePrices_body_fixed)
  have h3: "story_arc_multipliers E = story_arc_multipliers E1"
    unfolding E1_def E_def by (simp add: first_tick_context started_engine_simps)
  have h4: "gen E = gen E1" by simp
  have d: "days_elapsed (market_data E) \<noteq> days_elapsed (market_data E1)"
    unfolding E1_def by (simp add: calculatePrices_body_md)
  from price_model_deterministic [OF h1 h2 h3 h4, of S "characters E1 ! 14"]
  have "fst (calculateNewPrice S E (characters E1 ! 14)) =
        fst (calculateNewPrice S E1 (characters E1 ! 14))" by simp
  with h1 h2 h3 h4 d show ?thesis unfolding E1_def S_def E_def by blast
qed

text \<open>
  Claim C8 as stated fails: two runs from the same generator state and the same initial
  state, with eleven ticks each and the same draws, in which the deactivation thread
  of the first event runs after the eleventh tick in one and before it in the other, end
  with different prices of the entity at position 14.
\<close>

theorem price_sequence_depends_on_interleaving:
  "current_price (characters
      (run (fixed_source 0 0.05 1 0) (replicate 10 (Tick (\<lambda>k. 0)) @ [Tick (\<lambda>k. 0), EventReset])
         (started_engine () 0 (\<lambda>k. 0))) ! 14)
     = 47399333624769694293 / 195312500000000000 \<and>
   current_price (characters
      (run (fixed_source 0 0.05 1 0) (replicate 10 (Tick (\<lambda>k. 0)) @ [EventReset, Tick (\<lambda>k. 0)])
         (started_engine () 0 (\<lambda>k. 0))) ! 14)
     = 15799777874923231431 / 97656250000000000 \<and>
   current_price (characters
      (run (fixed_source 0 0.05 1 0) (replicate 10 (Tick (\<lambda>k. 0)) @ [Tick (\<lambda>k. 0), EventReset])
         (started_engine () 0 (\<lambda>k. 0))) ! 14) \<noteq>
   current_price (characters
      (run (fixed_source 0 0.05 1 0) (replicate 10 (Tick (\<lambda>k. 0)) @ [EventReset, Tick (\<lambda>k. 0)])
         (started_engine () 0 (\<lambda>k. 0))) ! 14)"
proof -
  define S :: "unit random_source" where "S = fixed_source 0 0.05 1 0"
  define K :: "nat \<Rightarrow> time_point" where "K = (\<lambda>k. 0)"
  define E :: "unit PriceEngine" where "E = started_engine () 0 K"
  define E1 where "E1 = calculatePrices_body S K E"
  define E10 where "E10 = run S (replicate 9 (Tick K)) E1"
  define P :: real where "P = 544819926721490739 / 3906250000000000"
  have u: "(0.05::real) < 0.1" by simp
  have E: "running E" "calculation_thread E" "characters E = roster K"
    by (simp_all add: E_def started_engine_simps)
  have a1: "entity14_at E1 0.5"
    unfolding entity14_at_def E1_def S_def
    using E(1,2) calculatePrices_body_inv [OF started_engine_inv, of "fixed_source 0 0.05 1 0" K "()" 0 K]
    by (simp add: akainu_start [OF E(3)] akainu_fields [OF E(3)] calculatePrices_body_frame
        calculatePrices_body_md E(3) length_roster)
       (simp add: E_def started_engine_simps MarketData_ctor_def)
  have f1: "major_event_active (market_data E1)" and d1: "detached_resets E1 = 1"
    unfolding E1_def S_def E_def
    by (simp_all add: calculatePrices_body_fixed started_engine_simps)
  have ten: "run S (replicate 10 (Tick K)) E = E10"
  proof -
    have "replicate 10 (Tick K) = Tick K # replicate 9 (Tick K)"
      by (simp add: eval_nat_numeral)
    then show ?thesis using E(1,2) by (simp add: run_cons E10_def E1_def)
  qed
  from eventful_ticks [OF a1 _ f1 u, of 1 0 9 K]
  have a10: "entity14_at E10 P" and f10: "major_event_active (market_data E10)"
    and d10: "detached_resets E10 = 10"
    unfolding E10_def S_def P_def by (simp_all add: next14_nine d1)
  have P0: "P \<noteq> 0" by (simp add: P_def)
  from a10 have r10: "running E10" "calculation_thread E10" by (simp_all add: entity14_at_def)
  have A: "current_price (characters (run S (replicate 10 (Tick K) @ [Tick K, EventReset]) E) ! 14) =
        next14 True P"
  proof -
    have "entity14_at (calculatePrices_body S K E10) (next14 True P)"
      using entity14_tick [OF a10 P0, of "0.05" 1 0 K] f10 by (simp add: S_def)
    then have "current_price (characters (calculatePrices_body S K E10) ! 14) = next14 True P"
      by (simp add: entity14_at_def)
    then show ?thesis
      using r10 by (simp add: run_append ten run_cons run_nil event_reset_frame)
  qed
  have B: "current_price (characters (run S (replicate 10 (Tick K) @ [EventReset, Tick K]) E) ! 14) =
        next14 False P"
  proof -
    have fr: "\<not> major_event_active (market_data (event_reset E10))"
      by (simp add: event_reset_def)
    have "entity14_at (calculatePrices_body S K (event_reset E10)) (next14 False P)"
      using entity14_tick [OF event_reset_entity14 [OF a10] P0, of "0.05" 1 0 K] fr
      by (simp add: S_def)
    then have "current_price (characters (calculatePrices_body S K (event_reset E10)) ! 14) =
        next14 False P"
      by (simp add: entity14_at_def)
    then show ?thesis
      using r10 d10 by (simp add: run_append ten run_cons run_nil event_reset_frame)
  qed
  have vA: "next14 True P = 47399333624769694293 / 195312500000000000"
    and vB: "next14 False P = 15799777874923231431 / 97656250000000000"
    by (simp_all add: next14_def P_def)
  have ne: "(47399333624769694293 / 195312500000000000 :: real) \<noteq>
      15799777874923231431 / 97656250000000000" by simp
  from A B vA vB ne show ?thesis unfolding S_def E_def K_def by simp
qed

subsection \<open>C9: shutdown\<close>

lemma stopped_step:
  assumes "\<not> running e" and "\<not> story_progression_thread e"
  shows "\<not> running (step src ev e) \<and> \<not> story_progression_thread (step src ev e) \<and>
         characters (step src ev e) = characters e"
proof (cases ev)
  case (Tick clk)
  then show ?thesis using assms by simp
next
  case ArcPoll
  then show ?thesis using assms by simp
next
  case EventReset
  then show ?thesis using assms by (simp add: event_reset_frame)
next
  case Shutdown
  then show ?thesis using assms by (simp add: stopPriceCalculation_eq)
qed

lemma stopped_run:
  assumes "\<not> running e" and "\<not> story_progression_thread e"
  shows "characters (run src evs e) = characters e"
  using assms unfolding run_def
proof (induction evs arbitrary: e)
  case Nil
  then show ?case by simp
next
  case (Cons ev evs)
  from stopped_step [OF Cons.prems, of src ev] Cons.IH [of "step src ev e"]
  show ?case by simp
qed

text \<open>
  Claim C9, as amended. \<^verbatim>\<open>stopPriceCalculation\<close> clears the running flag and joins the
  two periodic threads; whatever steps follow, no entity of the registry changes again.
  The detached deactivation threads are not joined: their number is as it was.
\<close>

theorem shutdown_stops_price_updates:
  "\<not> running (stopPriceCalculation e) \<and>
   \<not> calculation_thread (stopPriceCalculation e) \<and>
   \<not> story_progression_thread (stopPriceCalculation e) \<and>
   detached_resets (stopPriceCalculation e) = detached_resets e \<and>
   characters (stopPriceCalculation e) = characters e \<and>
   characters (run src evs (stopPriceCalculation e)) = characters e"
  using stopped_run [OF stopPriceCalculation_flags(1) stopPriceCalculation_flags(3), of src evs e]
  by (simp add: stopPriceCalculation_flags stopPriceCalculation_characters)

text \<open>
  Claim C9 as stated fails: after a tick in which an event fired, followed by the
  shutdown, one deactivation thread is still outstanding and the flag is still set; the
  thread clears the flag after the shutdown has returned.
\<close>

theorem shutdown_leaves_detached_reset:
  "detached_resets (run (fixed_source 0 0.05 1 0) [Tick (\<lambda>k. 0), Shutdown]
      (started_engine () 0 (\<lambda>k. 0))) = 1 \<and>
   major_event_active (market_data (run (fixed_source 0 0.05 1 0) [Tick (\<lambda>k. 0), Shutdown]
      (started_engine () 0 (\<lambda>k. 0)))) \<and>
   \<not> major_event_active (market_data (run (fixed_source 0 0.05 1 0)
      [Tick (\<lambda>k. 0), Shutdown, EventReset] (started_engine () 0 (\<lambda>k. 0))))"
proof -
  define S :: "unit random_source" where "S = fixed_source 0 0.05 1 0"
  define E :: "unit PriceEngine" where "E = started_engine () 0 (\<lambda>k. 0)"
  define E1 where "E1 = step S (Tick (\<lambda>k. 0)) E"
  define E2 where "E2 = step S Shutdown E1"
  have E1: "E1 = calculatePrices_body S (\<lambda>k. 0) E"
    by (simp add: E1_def E_def started_engine_simps)
  have d1: "detached_resets E1 = 1" and f1: "major_event_active (market_data E1)"
    unfolding E1 S_def E_def by (simp_all add: calculatePrices_body_fixed started_engine_simps)
  have days: "days_elapsed (market_data E1) = 1"
    unfolding E1 E_def by (simp add: calculatePrices_body_md started_engine_simps MarketData_ctor_def)
  have inv: "engine_inv (E1\<lparr> running := False, calculation_thread := False \<rparr>)"
    unfolding E1 E_def
    using calculatePrices_body_inv [OF started_engine_inv] by (simp add: engine_inv_def)
  have poll: "progressStory_body (E1\<lparr> running := False, calculation_thread := False \<rparr>) =
      E1\<lparr> running := False, calculation_thread := False \<rparr>"
    by (simp add: progressStory_body_eq [OF inv] days smod_int_alt_def)
  have d2: "detached_resets E2 = 1" and f2: "major_event_active (market_data E2)"
    unfolding E2_def using d1 f1 by (simp_all add: stopPriceCalculation_eq poll)
  have f3: "\<not> major_event_active (market_data (step S EventReset E2))"
    using d2 by (simp add: event_reset_def)
  from d2 f2 f3 show ?thesis
    unfolding E2_def E1_def S_def E_def by (simp add: run_cons run_nil)
qed

subsection \<open>C10: what a tick leaves unchanged\<close>

text \<open>
  Claim C10. A tick leaves the identifier, name, group, reputation, growth rate,
  volatility, story fields and trending flag of every entity as they are and keeps the
  number of entities; the price model leaves the registry as it is.
\<close>

theorem tick_frame:
  "map id' (characters (calculatePrices_body src clk e)) = map id' (characters e) \<and>
   map name (characters (calculatePrices_body src clk e)) = map name (characters e) \<and>
   map crew (characters (calculatePrices_body src clk e)) = map crew (characters e) \<and>
   map bounty (characters (calculatePrices_body src clk e)) = map bounty (characters e) \<and>
   map base_growth_rate (characters (calculatePrices_body src clk e)) =
     map base_growth_rate (characters e) \<and>
   map volatility (characters (calculatePrices_body src clk e)) = map volatility (characters e) \<and>
   map story_multiplier (characters (calculatePrices_body src clk e)) =
     map story_multiplier (characters e) \<and>
   map sentiment_score (characters (calculatePrices_body src clk e)) =
     map sentiment_score (characters e) \<and>
   map story_phase (characters (calculatePrices_body src clk e)) = map story_phase (characters e) \<and>
   map is_trending (characters (calculatePrices_body src clk e)) = map is_trending (characters e) \<and>
   length (characters (calculatePrices_body src clk e)) = length (characters e) \<and>
   characters (snd (calculateNewPrice src e c)) = characters e"
  by (intro conjI tick_field_frame calculatePrices_body_frame calculateNewPrice_frame) simp_all

end
